theory Spec2Isabelle
  imports Complex_Main "HOL-Library.Word"
begin

section \<open>Values shared by the scan and compare modules\<close>

text \<open>
  The repository is \<^verbatim>\<open>proofora-ml/app\<close>: \<^verbatim>\<open>scan.py\<close> (metadata extraction and the
  design fingerprint), \<^verbatim>\<open>compare.py\<close> (the three similarity metrics and their
  weighted combination) and \<^verbatim>\<open>utils.py\<close>. The numeric kernels live in third-party
  packages (PIL, imagehash, OpenCV, scikit-image, scipy, hashlib); the functions of the
  repository are translated here, and each third-party call they make is a field of the
  record \<open>libs\<close> below, except where a claim depends on what the package computes
  (the gray conversion and the structural-similarity index of scikit-image), which is
  then written out.

  A Python \<^verbatim>\<open>str\<close> is modelled by its UTF-8 bytes as a HOL \<open>string\<close>: joining and then
  encoding a \<^verbatim>\<open>str\<close> is concatenation of those bytes.
\<close>

type_synonym uint8 = "8 word"
type_synonym bytes = "uint8 list"

definition str_encode :: "string \<Rightarrow> bytes" where
  "str_encode s = map (\<lambda>c. word_of_nat (of_char c)) s"

subsection \<open>\<^verbatim>\<open>create_design_fingerprint\<close> (scan.py, lines 349-353)\<close>

text \<open>
  \<^verbatim>\<open>combined = "".join(hashes); hashlib.sha256(combined.encode()).hexdigest()\<close>.
  The digest function of hashlib is the parameter \<open>sha256_hexdigest\<close>.
\<close>

definition create_design_fingerprint :: "(bytes \<Rightarrow> string) \<Rightarrow> string list \<Rightarrow> string" where
  "create_design_fingerprint sha256_hexdigest hashes =
     (let combined = concat hashes in sha256_hexdigest (str_encode combined))"

subsection \<open>Floating-point values\<close>

text \<open>
  numpy and Python floats are modelled by the real numbers, extended with the three
  special values that the code can produce: a division of zero by zero gives
  \<^verbatim>\<open>nan\<close> (with a warning, not an exception), a division of a non-zero value by zero
  gives an infinity, and every later operation propagates \<^verbatim>\<open>nan\<close>. Rounding error
  of the finite values is not modelled.
\<close>

datatype npfloat = Fin real | PInf | NInf | NaN

definition np_divide :: "real \<Rightarrow> real \<Rightarrow> npfloat" where
  "np_divide a b =
     (if b \<noteq> 0 then Fin (a / b) else if a = 0 then NaN else if 0 < a then PInf else NInf)"

fun np_add :: "npfloat \<Rightarrow> npfloat \<Rightarrow> npfloat" where
  "np_add (Fin a) (Fin b) = Fin (a + b)"
| "np_add NaN _ = NaN"
| "np_add _ NaN = NaN"
| "np_add PInf NInf = NaN"
| "np_add NInf PInf = NaN"
| "np_add PInf _ = PInf"
| "np_add _ PInf = PInf"
| "np_add NInf _ = NInf"
| "np_add _ NInf = NInf"

fun np_scale :: "real \<Rightarrow> npfloat \<Rightarrow> npfloat" where
  "np_scale w (Fin a) = Fin (w * a)"
| "np_scale w NaN = NaN"
| "np_scale w PInf = (if w = 0 then NaN else if 0 < w then PInf else NInf)"
| "np_scale w NInf = (if w = 0 then NaN else if 0 < w then NInf else PInf)"

text \<open>\<^verbatim>\<open>np.clip(x, lo, hi)\<close> is \<^verbatim>\<open>minimum(maximum(x, lo), hi)\<close>; both propagate \<^verbatim>\<open>nan\<close>.\<close>

fun np_clip :: "npfloat \<Rightarrow> real \<Rightarrow> real \<Rightarrow> npfloat" where
  "np_clip (Fin x) lo hi = Fin (min (max x lo) hi)"
| "np_clip PInf lo hi = Fin hi"
| "np_clip NInf lo hi = Fin (min lo hi)"
| "np_clip NaN lo hi = NaN"

text \<open>\<^verbatim>\<open>arr.mean()\<close> of a non-empty array: the sum divided by the number of elements.\<close>

definition np_mean_f :: "npfloat list \<Rightarrow> npfloat" where
  "np_mean_f xs = np_scale (1 / real (length xs)) (foldr np_add xs (Fin 0))"

definition np_sum :: "real list \<Rightarrow> real" where
  "np_sum xs = sum_list xs"

definition np_mean :: "real list \<Rightarrow> real" where
  "np_mean xs = sum_list xs / real (length xs)"

definition np_std :: "real list \<Rightarrow> real" where
  "np_std xs = (let m = np_mean xs in sqrt (np_mean (map (\<lambda>x. (x - m) ^ 2) xs)))"

text \<open>
  Python's \<^verbatim>\<open>round(x, n)\<close> on a float rounds to \<open>n\<close> decimals, a tie going to the
  even neighbour; \<^verbatim>\<open>round(nan, n)\<close> is \<^verbatim>\<open>nan\<close>.
\<close>

definition round_half_even :: "real \<Rightarrow> int" where
  "round_half_even x =
     (let f = \<lfloor>x\<rfloor>; d = x - of_int f
      in if d < 1 / 2 then f else if 1 / 2 < d then f + 1 else if even f then f else f + 1)"

definition py_round :: "real \<Rightarrow> nat \<Rightarrow> real" where
  "py_round x n = of_int (round_half_even (x * 10 ^ n)) / 10 ^ n"

fun py_round_f :: "npfloat \<Rightarrow> nat \<Rightarrow> npfloat" where
  "py_round_f (Fin x) n = Fin (py_round x n)"
| "py_round_f v n = v"

subsection \<open>Exceptions and the clock\<close>

text \<open>
  An exception is seen by the code through \<^verbatim>\<open>type(e).__name__\<close>, \<^verbatim>\<open>str(e)\<close> and the
  traceback that \<^verbatim>\<open>traceback.format_exc()\<close> prints: the frames, outermost first, each a
  function name and the line of the call in it. A function of the model returns
  \<open>Inl e\<close> where the Python raises, and \<open>in_frame f l\<close> adds the frame of the caller when
  the exception passes through it.
\<close>

record py_exc =
  exc_type :: string
  exc_message :: string
  exc_frames :: "(string \<times> nat) list"

definition in_frame :: "string \<Rightarrow> nat \<Rightarrow> py_exc + 'a \<Rightarrow> py_exc + 'a" where
  "in_frame f l r = (case r of
       Inl e \<Rightarrow> Inl (e\<lparr>exc_frames := (f, l) # exc_frames e\<rparr>)
     | Inr v \<Rightarrow> Inr v)"

definition bind_exc :: "py_exc + 'a \<Rightarrow> ('a \<Rightarrow> py_exc + 'b) \<Rightarrow> py_exc + 'b" where
  "bind_exc r k = (case r of Inl e \<Rightarrow> Inl e | Inr v \<Rightarrow> k v)"

text \<open>
  A reading of \<^verbatim>\<open>datetime.utcnow()\<close>, through the two observations the code makes of
  it: its \<^verbatim>\<open>isoformat()\<close> and its position on the time line in seconds (differences
  of readings are taken with \<^verbatim>\<open>total_seconds()\<close>).
\<close>

record clock_reading =
  isoformat :: string
  epoch_seconds :: real

subsection \<open>Images\<close>

text \<open>
  A numpy array of dtype uint8 is a nested list: rows, columns and, for a colour image,
  channels. A PIL image carries its size, format, mode and the array that
  \<^verbatim>\<open>np.array(img)\<close> gives.
\<close>

type_synonym gray_array = "uint8 list list"
type_synonym rgb_array = "uint8 list list list"

datatype np_image = Arr2 gray_array | Arr3 rgb_array

record pil_image =
  pil_width :: nat
  pil_height :: nat
  pil_format :: "string option"
  pil_mode :: string
  pil_array :: np_image

text \<open>The constants of \<^verbatim>\<open>app/config.py\<close>, which is not among the source files.\<close>

record config =
  SSIM_WEIGHT :: real
  PHASH_WEIGHT :: real
  ORB_WEIGHT :: real
  PHASH_SIZE :: nat
  ORB_MAX_FEATURES :: nat

subsection \<open>The third-party functions\<close>

text \<open>
  Each field is one function of a package, named after it, with the arguments the
  repository fixes left out (the Canny thresholds are arguments because a claim names
  them). A function that can raise returns \<open>py_exc + _\<close>. An \<^verbatim>\<open>ImageHash\<close> is its
  flattened bit array. The theorems hold for every value of this record.
\<close>

record keypoint =
  kp_x :: real
  kp_y :: real

record dmatch =
  queryIdx :: nat
  trainIdx :: nat
  distance :: real

type_synonym descriptors = "uint8 list list"
type_synonym glcm = "real list list list list"

text \<open>
  \<^verbatim>\<open>io.BytesIO(image_bytes)\<close> makes a new stream object at every call. What
  \<^verbatim>\<open>Image.open\<close> can observe of it is its contents and its identity: the address
  that the \<^verbatim>\<open>repr\<close> of the object prints, which PIL copies into the message of the
  \<^verbatim>\<open>UnidentifiedImageError\<close> it raises (\<^verbatim>\<open>cannot identify image file <_io.BytesIO object at 0x...>\<close>).
\<close>

record bytes_io =
  object_id :: nat
  getvalue :: bytes

record libs =
  Image_open :: "bytes_io \<Rightarrow> py_exc + pil_image"
  Image_convert :: "pil_image \<Rightarrow> string \<Rightarrow> py_exc + pil_image"
  Image_resize_LANCZOS :: "pil_image \<Rightarrow> nat \<times> nat \<Rightarrow> py_exc + pil_image"
  imagehash_phash :: "pil_image \<Rightarrow> nat \<Rightarrow> py_exc + bool list"
  imagehash_average_hash :: "pil_image \<Rightarrow> py_exc + bool list"
  imagehash_dhash :: "pil_image \<Rightarrow> py_exc + bool list"
  imagehash_whash :: "pil_image \<Rightarrow> py_exc + bool list"
  imagehash_colorhash :: "pil_image \<Rightarrow> py_exc + bool list"
  imagehash_str :: "bool list \<Rightarrow> string"
  sha256_hexdigest :: "bytes \<Rightarrow> string"
  cv2_cvtColor_RGB2GRAY :: "np_image \<Rightarrow> py_exc + gray_array"
  cv2_Canny :: "gray_array \<Rightarrow> real \<Rightarrow> real \<Rightarrow> py_exc + gray_array"
  cv2_Sobel_64F :: "gray_array \<Rightarrow> nat \<Rightarrow> nat \<Rightarrow> nat \<Rightarrow> py_exc + real list list"
  cv2_ORB_detectAndCompute :: "nat \<Rightarrow> gray_array \<Rightarrow> py_exc + keypoint list \<times> descriptors option"
  cv2_BFMatcher_HAMMING_match :: "bool \<Rightarrow> descriptors \<Rightarrow> descriptors \<Rightarrow> py_exc + dmatch list"
  cv2_calcHist :: "np_image \<Rightarrow> nat \<Rightarrow> nat \<Rightarrow> py_exc + real list"
  np_fft_fft2 :: "gray_array \<Rightarrow> complex list list"
  np_unique_rows_counts :: "uint8 list list \<Rightarrow> uint8 list list \<times> nat list"
  scipy_entropy :: "real list \<Rightarrow> real"
  scipy_skew :: "real list \<Rightarrow> npfloat"
  scipy_kurtosis :: "real list \<Rightarrow> npfloat"
  skimage_graycomatrix :: "gray_array \<Rightarrow> nat list \<Rightarrow> real list \<Rightarrow> py_exc + glcm"
  skimage_graycoprops :: "glcm \<Rightarrow> string \<Rightarrow> py_exc + real list list"
  system_info :: "string \<times> string \<times> string"

subsection \<open>Array helpers\<close>

text \<open>
  The arrays handled here are never empty (the images are resized to 512 x 512 before
  they are measured); on an empty array numpy's mean is \<^verbatim>\<open>nan\<close>, and the theorems
  about means assume a non-empty array.
\<close>

definition tobytes3 :: "rgb_array \<Rightarrow> bytes" where
  "tobytes3 a = concat (concat a)"

definition tobytes :: "np_image \<Rightarrow> bytes" where
  "tobytes img = (case img of Arr2 g \<Rightarrow> concat g | Arr3 a \<Rightarrow> tobytes3 a)"

definition shape0 :: "'a list list \<Rightarrow> nat" where
  "shape0 a = length a"

definition shape1 :: "'a list list \<Rightarrow> nat" where
  "shape1 a = (case a of [] \<Rightarrow> 0 | r # _ \<Rightarrow> length r)"

definition shape2 :: "'a list list list \<Rightarrow> nat" where
  "shape2 a = (case a of [] \<Rightarrow> 0 | r # _ \<Rightarrow> (case r of [] \<Rightarrow> 0 | px # _ \<Rightarrow> length px))"

definition as_real :: "uint8 \<Rightarrow> real" where
  "as_real v = real (unat v)"

definition drop_alpha :: "rgb_array \<Rightarrow> rgb_array" where
  "drop_alpha a = map (map (take 3)) a"

definition channel :: "rgb_array \<Rightarrow> nat \<Rightarrow> real list" where
  "channel a c = map (\<lambda>px. as_real (px ! c)) (concat a)"

fun reshape_rows3 :: "'a list \<Rightarrow> 'a list list" where
  "reshape_rows3 (x # y # z # rest) = [x, y, z] # reshape_rows3 rest"
| "reshape_rows3 _ = []"

fun argmax_from :: "nat \<Rightarrow> nat \<Rightarrow> nat \<Rightarrow> nat list \<Rightarrow> nat" where
  "argmax_from best bi i [] = bi"
| "argmax_from best bi i (c # cs) =
     (if best < c then argmax_from c i (Suc i) cs else argmax_from best bi (Suc i) cs)"

definition argmax :: "nat list \<Rightarrow> nat" where
  "argmax cs = (case cs of [] \<Rightarrow> 0 | c # rest \<Rightarrow> argmax_from c 0 1 rest)"

definition astype_int :: "real \<Rightarrow> int" where
  "astype_int x = (if 0 \<le> x then \<lfloor>x\<rfloor> else \<lceil>x\<rceil>)"

text \<open>\<^verbatim>\<open>xs[start:stop]\<close> for integers: a negative bound counts from the end.\<close>

definition slice_bound :: "nat \<Rightarrow> int \<Rightarrow> nat" where
  "slice_bound n i = (if i < 0 then nat (max 0 (int n + i)) else min n (nat i))"

definition py_slice :: "'a list \<Rightarrow> int \<Rightarrow> int \<Rightarrow> 'a list" where
  "py_slice xs start stop =
     (let s = slice_bound (length xs) start; e = slice_bound (length xs) stop
      in take (e - s) (drop s xs))"

text \<open>\<^verbatim>\<open>np.fft.fftshift\<close> rolls every axis by half its length.\<close>

definition fftshift1 :: "'a list \<Rightarrow> 'a list" where
  "fftshift1 xs = rotate (length xs - length xs div 2) xs"

definition fftshift :: "'a list list \<Rightarrow> 'a list list" where
  "fftshift a = fftshift1 (map fftshift1 a)"

definition IndexError :: "string \<Rightarrow> py_exc" where
  "IndexError msg = \<lparr>exc_type = ''IndexError'', exc_message = msg, exc_frames = []\<rparr>"

definition ValueError :: "string \<Rightarrow> py_exc" where
  "ValueError msg = \<lparr>exc_type = ''ValueError'', exc_message = msg, exc_frames = []\<rparr>"

definition ZeroDivisionError :: "string \<Rightarrow> py_exc" where
  "ZeroDivisionError msg = \<lparr>exc_type = ''ZeroDivisionError'', exc_message = msg, exc_frames = []\<rparr>"

section \<open>scan.py: the feature extractors\<close>

text \<open>
  Every extractor wraps its body in \<^verbatim>\<open>try: ... except Exception as e: print(...); raise\<close>:
  the handler prints and re-raises, so the exception reaches the caller unchanged and
  the handler does not appear in the model. Printing is not modelled.
\<close>

subsection \<open>\<^verbatim>\<open>skimage.color.rgb2gray\<close>\<close>

text \<open>
  On a uint8 array the package first scales to \<open>[0, 1]\<close> and then takes the weighted
  sum \<open>0.2125 R + 0.7154 G + 0.0721 B\<close> along the last axis, which must have size 3.
  A three-dimensional array gives a two-dimensional result and a two-dimensional array
  of width 3 a one-dimensional one.
\<close>

datatype gray_f = Gray1 "real list" | Gray2 "real list list"

definition luminance :: "uint8 list \<Rightarrow> real" where
  "luminance px = (0.2125 * as_real (px ! 0) + 0.7154 * as_real (px ! 1) + 0.0721 * as_real (px ! 2)) / 255"

definition rgb2gray :: "np_image \<Rightarrow> py_exc + gray_f" where
  "rgb2gray img =
     (case img of
        Arr3 a \<Rightarrow> (if shape2 a = 3 then Inr (Gray2 (map (map luminance) a))
                   else Inl (ValueError ''the input array must have size 3 along `channel_axis`''))
      | Arr2 g \<Rightarrow> (if shape1 g = 3 then Inr (Gray1 (map luminance g))
                   else Inl (ValueError ''the input array must have size 3 along `channel_axis`'')))"

subsection \<open>\<^verbatim>\<open>extract_color_features\<close> (lines 131-194)\<close>

record color_analysis =
  mean_colors :: "real \<times> real \<times> real"
  color_variance :: "real \<times> real \<times> real"
  dominant_color_rgb :: "int list"
  dominant_color_percentage :: real
  color_histogram :: "int list \<times> int list \<times> int list"
  color_entropy :: "real \<times> real \<times> real"

definition extract_color_features :: "libs \<Rightarrow> np_image \<Rightarrow> py_exc + color_analysis" where
  "extract_color_features L img_np0 =
     (case img_np0 of
        Arr2 g \<Rightarrow>
          in_frame ''extract_color_features'' (if shape1 g = 4 then 137 else 144)
            (Inl (IndexError ''too many indices for array''))
      | Arr3 a0 \<Rightarrow>
         (let img_np = (if shape2 a0 = 4 then drop_alpha a0 else a0) in
          if shape2 img_np < 3 then
            in_frame ''extract_color_features'' (144 + shape2 img_np)
              (Inl (IndexError ''index is out of bounds for axis 2''))
          else
          let mean_c = (py_round (np_mean (channel img_np 0)) 2,
                        py_round (np_mean (channel img_np 1)) 2,
                        py_round (np_mean (channel img_np 2)) 2);
              var_c = (py_round (np_std (channel img_np 0)) 2,
                       py_round (np_std (channel img_np 1)) 2,
                       py_round (np_std (channel img_np 2)) 2);
              flat = concat (concat img_np)
          in
          if length flat mod 3 \<noteq> 0 then
            in_frame ''extract_color_features'' 155 (Inl (ValueError ''cannot reshape array''))
          else
          let pixels = reshape_rows3 flat;
              (unique, counts) = np_unique_rows_counts L pixels
          in
          if counts = [] then
            in_frame ''extract_color_features'' 157
              (Inl (ValueError ''attempt to get argmax of an empty sequence''))
          else if length unique \<le> argmax counts then
            in_frame ''extract_color_features'' 157 (Inl (IndexError ''index is out of bounds for axis 0''))
          else
          let dominant_color = map uint (unique ! argmax counts);
              dominant_percentage =
                py_round (real (Max (set counts)) / real (sum_list counts) * 100) 2
          in
          bind_exc (in_frame ''extract_color_features'' 161 (cv2_calcHist L (Arr3 img_np) 0 8)) (\<lambda>hr.
          bind_exc (in_frame ''extract_color_features'' 162 (cv2_calcHist L (Arr3 img_np) 1 8)) (\<lambda>hg.
          bind_exc (in_frame ''extract_color_features'' 163 (cv2_calcHist L (Arr3 img_np) 2 8)) (\<lambda>hb.
          let hist_r = map astype_int hr; hist_g = map astype_int hg; hist_b = map astype_int hb;
              ent = (\<lambda>h. py_round (scipy_entropy L (map (\<lambda>v. real_of_int v + 1 / 10 ^ 10) h)) 2)
          in Inr \<lparr>mean_colors = mean_c,
                  color_variance = var_c,
                  dominant_color_rgb = dominant_color,
                  dominant_color_percentage = dominant_percentage,
                  color_histogram = (hist_r, hist_g, hist_b),
                  color_entropy = (ent hist_r, ent hist_g, ent hist_b)\<rparr>)))))"

subsection \<open>\<^verbatim>\<open>extract_texture_features\<close> (lines 197-224)\<close>

record texture_features =
  tex_contrast :: real
  tex_dissimilarity :: real
  tex_homogeneity :: real
  tex_energy :: real
  tex_correlation :: real
  texture_complexity :: real

definition astype_uint8 :: "real \<Rightarrow> uint8" where
  "astype_uint8 x = word_of_int (astype_int x)"

definition extract_texture_features :: "libs \<Rightarrow> np_image \<Rightarrow> py_exc + texture_features" where
  "extract_texture_features L img_np =
     bind_exc (in_frame ''extract_texture_features'' 200 (rgb2gray img_np)) (\<lambda>g.
     case g of
       Gray1 _ \<Rightarrow> in_frame ''extract_texture_features'' 205
                    (Inl (ValueError ''The parameter `image` must be a 2-dimensional array''))
     | Gray2 g2 \<Rightarrow>
     let gray = map (map (\<lambda>v. astype_uint8 (v * 255))) g2;
         distances = [1, 3, 5];
         angles = [0, pi / 4, pi / 2, 3 * pi / 4]
     in
     bind_exc (in_frame ''extract_texture_features'' 205
                 (skimage_graycomatrix L gray distances angles)) (\<lambda>glcm.
     bind_exc (in_frame ''extract_texture_features'' 208 (skimage_graycoprops L glcm ''contrast'')) (\<lambda>p1.
     bind_exc (in_frame ''extract_texture_features'' 209 (skimage_graycoprops L glcm ''dissimilarity'')) (\<lambda>p2.
     bind_exc (in_frame ''extract_texture_features'' 210 (skimage_graycoprops L glcm ''homogeneity'')) (\<lambda>p3.
     bind_exc (in_frame ''extract_texture_features'' 211 (skimage_graycoprops L glcm ''energy'')) (\<lambda>p4.
     bind_exc (in_frame ''extract_texture_features'' 212 (skimage_graycoprops L glcm ''correlation'')) (\<lambda>p5.
     let contrast = np_mean (concat p1);
         dissimilarity = np_mean (concat p2);
         homogeneity = np_mean (concat p3);
         energy = np_mean (concat p4);
         correlation = np_mean (concat p5)
     in Inr \<lparr>tex_contrast = py_round contrast 4,
             tex_dissimilarity = py_round dissimilarity 4,
             tex_homogeneity = py_round homogeneity 4,
             tex_energy = py_round energy 4,
             tex_correlation = py_round correlation 4,
             texture_complexity = py_round ((contrast + dissimilarity) / 2) 2\<rparr>)))))))"

subsection \<open>\<^verbatim>\<open>extract_orb_features\<close> (lines 227-261)\<close>

record orb_features =
  total_keypoints :: nat
  keypoint_positions :: "(real \<times> real) list"
  feature_descriptor_hash :: "string option"
  keypoint_density :: real

definition extract_orb_features :: "libs \<Rightarrow> config \<Rightarrow> np_image \<Rightarrow> py_exc + orb_features" where
  "extract_orb_features L cfg img_np =
     bind_exc (in_frame ''extract_orb_features'' 230 (cv2_cvtColor_RGB2GRAY L img_np)) (\<lambda>gray.
     bind_exc (in_frame ''extract_orb_features'' 233
                 (cv2_ORB_detectAndCompute L (ORB_MAX_FEATURES cfg) gray)) (\<lambda>(keypoints, descriptors).
     if length keypoints = 0 then
       Inr \<lparr>total_keypoints = 0, keypoint_positions = [],
            feature_descriptor_hash = None, keypoint_density = 0\<rparr>
     else
     let positions = map (\<lambda>kp. (kp_x kp, kp_y kp)) (take 50 keypoints);
         total_pixels = shape0 gray * shape1 gray
     in
     if total_pixels = 0 then
       in_frame ''extract_orb_features'' 246 (Inl (ZeroDivisionError ''division by zero''))
     else
     let density = py_round (real (length keypoints) / real total_pixels * 1000) 2;
         desc_hash = (case descriptors of
                        Some d \<Rightarrow> Some (sha256_hexdigest L (concat d))
                      | None \<Rightarrow> None)
     in Inr \<lparr>total_keypoints = length keypoints,
             keypoint_positions = positions,
             feature_descriptor_hash = desc_hash,
             keypoint_density = density\<rparr>))"

subsection \<open>\<^verbatim>\<open>extract_pixel_statistics\<close> (lines 264-294)\<close>

record pixel_statistics =
  px_brightness :: real
  px_contrast :: real
  min_pixel_value :: int
  max_pixel_value :: int
  dynamic_range :: int
  px_entropy :: real
  px_skewness :: npfloat
  px_kurtosis :: npfloat

definition extract_pixel_statistics :: "libs \<Rightarrow> np_image \<Rightarrow> py_exc + pixel_statistics" where
  "extract_pixel_statistics L img_np =
     (let flat = tobytes img_np;
          pixels_flat = map as_real flat;
          brightness = np_mean pixels_flat;
          contrast = np_std pixels_flat
      in
      if flat = [] then
        in_frame ''extract_pixel_statistics'' 269
          (Inl (ValueError ''zero-size array to reduction operation minimum which has no identity''))
      else
      let min_pixel = uint (Min (set flat));
          max_pixel = uint (Max (set flat));
          dynamic_range = max_pixel - min_pixel
      in
      bind_exc (in_frame ''extract_pixel_statistics'' 275
                  (cv2_calcHist L (Arr2 (map (\<lambda>v. [v]) flat)) 0 256)) (\<lambda>hist.
      let img_entropy = scipy_entropy L (map (\<lambda>h. h + 1 / 10 ^ 10) hist);
          pixel_skewness = scipy_skew L pixels_flat;
          pixel_kurtosis = scipy_kurtosis L pixels_flat
      in Inr \<lparr>px_brightness = py_round brightness 2,
              px_contrast = py_round contrast 2,
              min_pixel_value = min_pixel,
              max_pixel_value = max_pixel,
              dynamic_range = dynamic_range,
              px_entropy = py_round img_entropy 2,
              px_skewness = py_round_f pixel_skewness 2,
              px_kurtosis = py_round_f pixel_kurtosis 2\<rparr>))"

subsection \<open>\<^verbatim>\<open>extract_edge_features\<close> (lines 297-318)\<close>

record edge_features =
  edge_density_percentage :: real
  edge_strength :: real
  has_strong_edges :: bool

definition count_edge_pixels :: "gray_array \<Rightarrow> nat" where
  "count_edge_pixels edges = length (filter (\<lambda>v. 0 < v) (concat edges))"

definition array_size :: "'a list list \<Rightarrow> nat" where
  "array_size a = length (concat a)"

definition sobel_magnitude :: "real list list \<Rightarrow> real list list \<Rightarrow> real list list" where
  "sobel_magnitude sobelx sobely = map2 (map2 (\<lambda>gx gy. sqrt (gx ^ 2 + gy ^ 2))) sobelx sobely"

definition extract_edge_features :: "libs \<Rightarrow> np_image \<Rightarrow> py_exc + edge_features" where
  "extract_edge_features L img_np =
     bind_exc (in_frame ''extract_edge_features'' 300 (cv2_cvtColor_RGB2GRAY L img_np)) (\<lambda>gray.
     bind_exc (in_frame ''extract_edge_features'' 302 (cv2_Canny L gray 100 200)) (\<lambda>edges_canny.
     let edge_density =
           py_round (real (count_edge_pixels edges_canny) / real (array_size edges_canny) * 100) 2
     in
     bind_exc (in_frame ''extract_edge_features'' 305 (cv2_Sobel_64F L gray 1 0 3)) (\<lambda>sobelx.
     bind_exc (in_frame ''extract_edge_features'' 306 (cv2_Sobel_64F L gray 0 1 3)) (\<lambda>sobely.
     let edge_strength = py_round (np_mean (concat (sobel_magnitude sobelx sobely))) 2
     in Inr \<lparr>edge_density_percentage = edge_density,
             edge_strength = edge_strength,
             has_strong_edges = (5 < edge_density)\<rparr>))))"

subsection \<open>\<^verbatim>\<open>extract_frequency_features\<close> (lines 321-346)\<close>

record frequency_features =
  low_frequency_energy :: real
  high_frequency_energy :: real
  frequency_ratio :: real
  detail_level :: string

definition low_freq_region :: "real list list \<Rightarrow> real list list" where
  "low_freq_region magnitude_spectrum =
     (let center_y = int (shape0 magnitude_spectrum div 2);
          center_x = int (shape1 magnitude_spectrum div 2)
      in map (\<lambda>row. py_slice row (center_x - 20) (center_x + 20))
           (py_slice magnitude_spectrum (center_y - 20) (center_y + 20)))"

definition extract_frequency_features :: "libs \<Rightarrow> np_image \<Rightarrow> py_exc + frequency_features" where
  "extract_frequency_features L img_np =
     bind_exc (in_frame ''extract_frequency_features'' 324 (cv2_cvtColor_RGB2GRAY L img_np)) (\<lambda>gray.
     let fft = np_fft_fft2 L gray;
         fft_shift = fftshift fft;
         magnitude_spectrum = map (map cmod) fft_shift;
         low_freq_energy = np_sum (concat (low_freq_region magnitude_spectrum));
         high_freq_energy = np_sum (concat magnitude_spectrum) - low_freq_energy;
         freq_ratio = py_round (high_freq_energy / (low_freq_energy + 1 / 10 ^ 10)) 2
     in Inr \<lparr>low_frequency_energy = py_round low_freq_energy 2,
             high_frequency_energy = py_round high_freq_energy 2,
             frequency_ratio = freq_ratio,
             detail_level = (if 1.5 < freq_ratio then ''high''
                             else if 0.8 < freq_ratio then ''medium'' else ''low'')\<rparr>)"

section \<open>utils.py\<close>

text \<open>
  \<^verbatim>\<open>load_image_bytes\<close> (lines 9-11) and \<^verbatim>\<open>pil_to_np\<close> (lines 13-17); \<^verbatim>\<open>if size:\<close> is
  false for \<^verbatim>\<open>None\<close>. Line 11 wraps the bytes in a new \<^verbatim>\<open>io.BytesIO\<close>: the
  identity that the allocator gives to this object is an input of the call,
  \<open>stream_id\<close>, as the clock readings are inputs of the scan. Two calls on the same
  bytes have two streams, so an exception raised by \<^verbatim>\<open>Image.open\<close> need not be the
  same in both.
\<close>

definition load_image_bytes :: "libs \<Rightarrow> nat \<Rightarrow> bytes \<Rightarrow> py_exc + pil_image" where
  "load_image_bytes L stream_id image_bytes =
     in_frame ''load_image_bytes'' 11
       (Image_open L \<lparr>object_id = stream_id, getvalue = image_bytes\<rparr>)"

definition pil_to_np :: "libs \<Rightarrow> pil_image \<Rightarrow> (nat \<times> nat) option \<Rightarrow> py_exc + np_image" where
  "pil_to_np L pil_img size_arg =
     (case size_arg of
        Some sz \<Rightarrow> bind_exc (in_frame ''pil_to_np'' 16 (Image_resize_LANCZOS L pil_img sz))
                     (\<lambda>resized. Inr (pil_array resized))
      | None \<Rightarrow> Inr (pil_array pil_img))"

section \<open>scan.py: \<^verbatim>\<open>extract_image_metadata\<close> and \<^verbatim>\<open>scan_design_for_blockchain\<close>\<close>

record image_info =
  info_width :: nat
  info_height :: nat
  info_format :: string
  info_mode :: string
  total_pixels :: nat
  aspect_ratio :: real

record hashes =
  perceptual_hash :: string
  average_hash :: string
  difference_hash :: string
  wavelet_hash :: string
  color_hash :: string
  sha256 :: string
  design_fingerprint :: string

record scan_metadata =
  algorithm_version :: string
  processing_resolution :: string
  scan_type :: string
  libraries_used :: "string list"

record metadata =
  scan_timestamp :: string
  md_image_info :: image_info
  md_hashes :: hashes
  md_color_analysis :: color_analysis
  md_texture_features :: texture_features
  md_orb_features :: orb_features
  md_pixel_statistics :: pixel_statistics
  md_edge_features :: edge_features
  md_frequency_features :: frequency_features
  md_scan_metadata :: scan_metadata

definition scan_metadata_const :: scan_metadata where
  "scan_metadata_const =
     \<lparr>algorithm_version = ''2.0.0'',
      processing_resolution = ''512x512'',
      scan_type = ''full_pixel_analysis'',
      libraries_used = [''opencv-python-4.12.0'', ''scikit-image-0.24.0'', ''scipy-1.16.3'',
                        ''ImageHash-4.3.2'', ''numpy-2.2.6'']\<rparr>"

text \<open>
  \<open>utcnow\<close> is the reading that \<^verbatim>\<open>datetime.utcnow()\<close> returns at line 79. The outer
  handler (lines 120-128) prints and re-raises.
\<close>

definition extract_image_metadata :: "libs \<Rightarrow> config \<Rightarrow> clock_reading \<Rightarrow> pil_image \<Rightarrow> py_exc + metadata" where
  "extract_image_metadata L cfg utcnow pil_img0 =
     bind_exc (in_frame ''extract_image_metadata'' 24 (Image_convert L pil_img0 ''RGB'')) (\<lambda>pil_img.
     let width = pil_width pil_img;
         height = pil_height pil_img;
         format_type = (case pil_format pil_img of
                          None \<Rightarrow> ''UNKNOWN''
                        | Some f \<Rightarrow> if f = [] then ''UNKNOWN'' else f);
         mode = pil_mode pil_img
     in
     bind_exc (in_frame ''extract_image_metadata'' 32 (pil_to_np L pil_img (Some (512, 512)))) (\<lambda>img_np.
     bind_exc (in_frame ''extract_image_metadata'' 37 (imagehash_phash L pil_img (PHASH_SIZE cfg))) (\<lambda>h1.
     bind_exc (in_frame ''extract_image_metadata'' 38 (imagehash_average_hash L pil_img)) (\<lambda>h2.
     bind_exc (in_frame ''extract_image_metadata'' 39 (imagehash_dhash L pil_img)) (\<lambda>h3.
     bind_exc (in_frame ''extract_image_metadata'' 40 (imagehash_whash L pil_img)) (\<lambda>h4.
     bind_exc (in_frame ''extract_image_metadata'' 41 (imagehash_colorhash L pil_img)) (\<lambda>h5.
     let phash = imagehash_str L h1;
         ahash = imagehash_str L h2;
         dhash = imagehash_str L h3;
         whash = imagehash_str L h4;
         colorhash = imagehash_str L h5;
         img_bytes = tobytes img_np;
         sha256_hash = sha256_hexdigest L img_bytes
     in
     bind_exc (in_frame ''extract_image_metadata'' 49 (extract_color_features L img_np)) (\<lambda>color_analysis.
     bind_exc (in_frame ''extract_image_metadata'' 53 (extract_texture_features L img_np)) (\<lambda>texture_features.
     bind_exc (in_frame ''extract_image_metadata'' 57 (extract_orb_features L cfg img_np)) (\<lambda>orb_features.
     bind_exc (in_frame ''extract_image_metadata'' 61 (extract_pixel_statistics L img_np)) (\<lambda>pixel_stats.
     bind_exc (in_frame ''extract_image_metadata'' 65 (extract_edge_features L img_np)) (\<lambda>edge_features.
     bind_exc (in_frame ''extract_image_metadata'' 69 (extract_frequency_features L img_np)) (\<lambda>frequency_features.
     let design_fingerprint =
           create_design_fingerprint (sha256_hexdigest L) [phash, ahash, dhash, whash, colorhash, sha256_hash]
     in
     if height = 0 then
       in_frame ''extract_image_metadata'' 86 (Inl (ZeroDivisionError ''division by zero''))
     else
     Inr \<lparr>scan_timestamp = isoformat utcnow @ ''Z'',
          md_image_info = \<lparr>info_width = width, info_height = height, info_format = format_type,
                            info_mode = mode, total_pixels = width * height,
                            aspect_ratio = py_round (real width / real height) 2\<rparr>,
          md_hashes = \<lparr>perceptual_hash = phash, average_hash = ahash, difference_hash = dhash,
                        wavelet_hash = whash, color_hash = colorhash, sha256 = sha256_hash,
                        design_fingerprint = design_fingerprint\<rparr>,
          md_color_analysis = color_analysis,
          md_texture_features = texture_features,
          md_orb_features = orb_features,
          md_pixel_statistics = pixel_stats,
          md_edge_features = edge_features,
          md_frequency_features = frequency_features,
          md_scan_metadata = scan_metadata_const\<rparr>)))))))))))))"

text \<open>
  The two results of \<^verbatim>\<open>scan_design_for_blockchain\<close> (lines 356-425): the dictionary of
  lines 387-393 and the \<^verbatim>\<open>error_details\<close> of lines 399-414. The entry \<^verbatim>\<open>success\<close> of
  either dictionary is the constructor of \<open>scan_result\<close>; \<^verbatim>\<open>traceback\<close> holds the frames
  that the printed traceback lists, and \<^verbatim>\<open>traceback_lines\<close>, the same text split into
  lines, has no field of its own. The three clock readings are those of line 361, of
  line 79 and of line 379 or 396; \<open>stream_id\<close> is the identity of the stream that
  \<^verbatim>\<open>load_image_bytes\<close> creates at line 370.
\<close>

record scan_success =
  ok_design_id :: string
  ok_metadata :: metadata
  ok_scan_duration_seconds :: real
  ok_message :: string

record scan_failure =
  error_type :: string
  error_message :: string
  err_scan_duration_seconds :: real
  err_timestamp :: string
  image_bytes_length :: nat
  traceback :: "(string \<times> nat) list"
  err_system_info :: "string \<times> string \<times> string"
  err_message :: string

datatype scan_result = Success scan_success | Failure scan_failure

definition success :: "scan_result \<Rightarrow> bool" where
  "success r = (case r of Success _ \<Rightarrow> True | Failure _ \<Rightarrow> False)"

definition scan_design_for_blockchain ::
  "libs \<Rightarrow> config \<Rightarrow> nat \<Rightarrow> clock_reading \<Rightarrow> clock_reading \<Rightarrow> clock_reading \<Rightarrow> bytes
     \<Rightarrow> scan_result" where
  "scan_design_for_blockchain L cfg stream_id scan_start_time utcnow scan_end_time image_bytes =
     (let duration = epoch_seconds scan_end_time - epoch_seconds scan_start_time in
      case bind_exc (in_frame ''scan_design_for_blockchain'' 370
                       (load_image_bytes L stream_id image_bytes))
             (\<lambda>pil_img. in_frame ''scan_design_for_blockchain'' 374
                           (extract_image_metadata L cfg utcnow pil_img)) of
        Inr metadata \<Rightarrow>
          Success \<lparr>ok_design_id = design_fingerprint (md_hashes metadata),
                   ok_metadata = metadata,
                   ok_scan_duration_seconds = py_round duration 2,
                   ok_message = ''Design scanned successfully. Ready for blockchain integration.''\<rparr>
      | Inl e \<Rightarrow>
          Failure \<lparr>error_type = exc_type e,
                   error_message = exc_message e,
                   err_scan_duration_seconds = py_round duration 2,
                   err_timestamp = isoformat scan_end_time @ ''Z'',
                   image_bytes_length = length image_bytes,
                   traceback = exc_frames e,
                   err_system_info = system_info L,
                   err_message = ''Scan failed - see error details''\<rparr>)"

section \<open>compare.py\<close>

subsection \<open>\<^verbatim>\<open>skimage.metrics.structural_similarity\<close>\<close>

text \<open>
  The call of line 35 passes two grayscale float arrays and \<^verbatim>\<open>data_range\<close>, and leaves
  the defaults: a uniform window of side 7, the sample covariance, \<open>K1 = 0.01\<close> and
  \<open>K2 = 0.03\<close>. The package raises \<^verbatim>\<open>ValueError\<close> when the shapes differ or a side
  is shorter than the window. It computes, at every position, the local means,
  variances and covariance over the window centred there, the map
  \<open>S = (A1 * A2) / (B1 * B2)\<close>, and returns the mean of \<open>S\<close> over the positions at
  least 3 away from every border: exactly the positions whose window lies inside the
  image, so the padding at the border plays no part. The division is numpy's: a zero
  denominator gives \<^verbatim>\<open>nan\<close> or an infinity, not an exception.
\<close>

definition windows1 :: "real list \<Rightarrow> real list list" where
  "windows1 xs = map (\<lambda>i. take 7 (drop i xs)) [0..<length xs - 6]"

definition windows2 :: "real list list \<Rightarrow> real list list" where
  "windows2 g =
     concat (map (\<lambda>i. map (\<lambda>j. concat (map (\<lambda>r. take 7 (drop j r)) (take 7 (drop i g))))
                        [0..<shape1 g - 6])
                 [0..<shape0 g - 6])"

definition ssim_window :: "real \<Rightarrow> real list \<Rightarrow> real list \<Rightarrow> npfloat" where
  "ssim_window R wx wy =
     (let NP = real (length wx);
          cov_norm = NP / (NP - 1);
          ux = sum_list wx / NP;
          uy = sum_list wy / NP;
          uxx = sum_list (map2 (*) wx wx) / NP;
          uyy = sum_list (map2 (*) wy wy) / NP;
          uxy = sum_list (map2 (*) wx wy) / NP;
          vx = cov_norm * (uxx - ux * ux);
          vy = cov_norm * (uyy - uy * uy);
          vxy = cov_norm * (uxy - ux * uy);
          C1 = (0.01 * R) ^ 2;
          C2 = (0.03 * R) ^ 2;
          A1 = 2 * ux * uy + C1;
          A2 = 2 * vxy + C2;
          B1 = ux ^ 2 + uy ^ 2 + C1;
          B2 = vx + vy + C2;
          D = B1 * B2
      in np_divide (A1 * A2) D)"

definition gray_shape :: "gray_f \<Rightarrow> nat list" where
  "gray_shape g = (case g of Gray1 xs \<Rightarrow> [length xs] | Gray2 a \<Rightarrow> [shape0 a, shape1 a])"

definition gray_windows :: "gray_f \<Rightarrow> real list list" where
  "gray_windows g = (case g of Gray1 xs \<Rightarrow> windows1 xs | Gray2 a \<Rightarrow> windows2 a)"

definition gray_values :: "gray_f \<Rightarrow> real list" where
  "gray_values g = (case g of Gray1 xs \<Rightarrow> xs | Gray2 a \<Rightarrow> concat a)"

definition structural_similarity :: "gray_f \<Rightarrow> gray_f \<Rightarrow> real \<Rightarrow> py_exc + npfloat" where
  "structural_similarity im1 im2 data_range =
     (if gray_shape im1 \<noteq> gray_shape im2 then
        Inl (ValueError ''Input images must have the same dimensions.'')
      else if list_ex (\<lambda>d. d < 7) (gray_shape im1) then
        Inl (ValueError ''win_size exceeds image extent.'')
      else Inr (np_mean_f (map2 (ssim_window data_range) (gray_windows im1) (gray_windows im2))))"

subsection \<open>\<^verbatim>\<open>normalize_image_array\<close> (lines 10-20) and \<^verbatim>\<open>compute_ssim\<close> (lines 23-36)\<close>

definition last_axis :: "np_image \<Rightarrow> nat" where
  "last_axis img = (case img of Arr2 g \<Rightarrow> shape1 g | Arr3 a \<Rightarrow> shape2 a)"

definition normalize_image_array :: "np_image \<Rightarrow> np_image" where
  "normalize_image_array img_np =
     (case img_np of
        Arr2 g \<Rightarrow> Arr3 (map (map (\<lambda>v. [v, v, v])) g)
      | Arr3 a \<Rightarrow> if shape2 a = 4 then Arr3 (drop_alpha a) else Arr3 a)"

definition drop_alpha_at :: "nat \<Rightarrow> np_image \<Rightarrow> py_exc + np_image" where
  "drop_alpha_at line img_np =
     (if last_axis img_np = 4 then
        (case img_np of
           Arr2 g \<Rightarrow> in_frame ''compute_ssim'' line (Inl (IndexError ''too many indices for array''))
         | Arr3 a \<Rightarrow> Inr (Arr3 (drop_alpha a)))
      else Inr img_np)"

definition compute_ssim :: "np_image \<Rightarrow> np_image \<Rightarrow> py_exc + npfloat" where
  "compute_ssim img1_np0 img2_np0 =
     bind_exc (drop_alpha_at 28 img1_np0) (\<lambda>img1_np.
     bind_exc (drop_alpha_at 30 img2_np0) (\<lambda>img2_np.
     bind_exc (in_frame ''compute_ssim'' 32 (rgb2gray img1_np)) (\<lambda>g1.
     bind_exc (in_frame ''compute_ssim'' 33 (rgb2gray img2_np)) (\<lambda>g2.
     if gray_values g2 = [] then
       in_frame ''compute_ssim'' 35
         (Inl (ValueError ''zero-size array to reduction operation maximum which has no identity''))
     else
     let data_range = Max (set (gray_values g2)) - Min (set (gray_values g2)) in
     bind_exc (in_frame ''compute_ssim'' 35 (structural_similarity g1 g2 data_range)) (\<lambda>score.
     Inr (np_clip score (- 1) 1))))))"

subsection \<open>\<^verbatim>\<open>compute_phash_similarity\<close> (lines 40-51)\<close>

text \<open>
  The difference of two \<^verbatim>\<open>ImageHash\<close> values is the number of positions where their
  bits differ; it raises \<^verbatim>\<open>TypeError\<close> when the shapes differ.
\<close>

definition hamming :: "bool list \<Rightarrow> bool list \<Rightarrow> nat" where
  "hamming h1 h2 = length (filter (\<lambda>(a, b). a \<noteq> b) (zip h1 h2))"

definition compute_phash_similarity :: "libs \<Rightarrow> config \<Rightarrow> pil_image \<Rightarrow> pil_image \<Rightarrow> py_exc + real" where
  "compute_phash_similarity L cfg pil1_0 pil2_0 =
     bind_exc (in_frame ''compute_phash_similarity'' 42 (Image_convert L pil1_0 ''RGB'')) (\<lambda>pil1.
     bind_exc (in_frame ''compute_phash_similarity'' 43 (Image_convert L pil2_0 ''RGB'')) (\<lambda>pil2.
     bind_exc (in_frame ''compute_phash_similarity'' 45 (imagehash_phash L pil1 (PHASH_SIZE cfg))) (\<lambda>ph1.
     bind_exc (in_frame ''compute_phash_similarity'' 46 (imagehash_phash L pil2 (PHASH_SIZE cfg))) (\<lambda>ph2.
     let maxdist = PHASH_SIZE cfg * PHASH_SIZE cfg in
     if length ph1 \<noteq> length ph2 then
       in_frame ''compute_phash_similarity'' 49
         (Inl \<lparr>exc_type = ''TypeError'', exc_message = ''ImageHashes must be of the same shape.'',
               exc_frames = []\<rparr>)
     else
     let dist = hamming ph1 ph2 in
     if maxdist = 0 then
       in_frame ''compute_phash_similarity'' 50 (Inl (ZeroDivisionError ''division by zero''))
     else
     let score = 1 - real dist / real maxdist in
     Inr (min (max score 0) 1)))))"

subsection \<open>\<^verbatim>\<open>compute_orb_match_ratio\<close> (lines 54-76)\<close>

definition compute_orb_match_ratio :: "libs \<Rightarrow> config \<Rightarrow> np_image \<Rightarrow> np_image \<Rightarrow> py_exc + real" where
  "compute_orb_match_ratio L cfg img1_np0 img2_np0 =
     (let img1_np = normalize_image_array img1_np0;
          img2_np = normalize_image_array img2_np0
      in
      bind_exc (in_frame ''compute_orb_match_ratio'' 59 (cv2_cvtColor_RGB2GRAY L img1_np)) (\<lambda>gray1.
      bind_exc (in_frame ''compute_orb_match_ratio'' 60 (cv2_cvtColor_RGB2GRAY L img2_np)) (\<lambda>gray2.
      bind_exc (in_frame ''compute_orb_match_ratio'' 62
                  (cv2_ORB_detectAndCompute L (ORB_MAX_FEATURES cfg) gray1)) (\<lambda>(kp1, des1).
      bind_exc (in_frame ''compute_orb_match_ratio'' 63
                  (cv2_ORB_detectAndCompute L (ORB_MAX_FEATURES cfg) gray2)) (\<lambda>(kp2, des2).
      case (des1, des2) of
        (Some d1, Some d2) \<Rightarrow>
          bind_exc (in_frame ''compute_orb_match_ratio'' 69
                      (cv2_BFMatcher_HAMMING_match L True d1 d2)) (\<lambda>matches0.
          if length matches0 = 0 then Inr 0
          else
          let matches = sort_key distance matches0;
              good = filter (\<lambda>m. distance m < 60) matches;
              ratio = real (length good) / real (max (length matches) 1)
          in Inr (min (max ratio 0) 1))
      | _ \<Rightarrow> Inr 0)))))"

subsection \<open>\<^verbatim>\<open>combined_similarity\<close> (lines 79-106)\<close>

record breakdown =
  bd_ssim :: npfloat
  bd_phash :: npfloat
  bd_orb :: npfloat

record similarity_result =
  score :: npfloat
  breakdown :: breakdown

definition weighted_sum :: "config \<Rightarrow> npfloat \<Rightarrow> real \<Rightarrow> real \<Rightarrow> npfloat" where
  "weighted_sum cfg ssim_score phash_score orb_score =
     np_add (np_add (np_scale (SSIM_WEIGHT cfg) ssim_score) (Fin (PHASH_WEIGHT cfg * phash_score)))
            (Fin (ORB_WEIGHT cfg * orb_score))"

definition combined_similarity ::
  "libs \<Rightarrow> config \<Rightarrow> pil_image \<Rightarrow> pil_image \<Rightarrow> nat \<times> nat \<Rightarrow> py_exc + similarity_result" where
  "combined_similarity L cfg pil1_0 pil2_0 np_size =
     bind_exc (in_frame ''combined_similarity'' 83 (Image_convert L pil1_0 ''RGB'')) (\<lambda>pil1.
     bind_exc (in_frame ''combined_similarity'' 84 (Image_convert L pil2_0 ''RGB'')) (\<lambda>pil2.
     bind_exc (in_frame ''combined_similarity'' 86 (pil_to_np L pil1 (Some np_size))) (\<lambda>img1_np.
     bind_exc (in_frame ''combined_similarity'' 87 (pil_to_np L pil2 (Some np_size))) (\<lambda>img2_np.
     bind_exc (in_frame ''combined_similarity'' 89 (compute_ssim img1_np img2_np)) (\<lambda>ssim_score.
     bind_exc (in_frame ''combined_similarity'' 90 (compute_phash_similarity L cfg pil1 pil2)) (\<lambda>phash_score.
     bind_exc (in_frame ''combined_similarity'' 91 (compute_orb_match_ratio L cfg img1_np img2_np)) (\<lambda>orb_score.
     let score = weighted_sum cfg ssim_score phash_score orb_score in
     Inr \<lparr>score = np_clip score 0 1,
          breakdown = \<lparr>bd_ssim = np_clip ssim_score 0 1,
                        bd_phash = np_clip (Fin phash_score) 0 1,
                        bd_orb = np_clip (Fin orb_score) 0 1\<rparr>\<rparr>)))))))"

section \<open>A concrete instance\<close>

text \<open>
  The theorems below hold for every value of \<open>libs\<close> and \<open>config\<close>. To run the model
  on concrete inputs, this instance fixes one value of each. The example images have
  a single white pixel in the top-left corner, or are uniformly white or black. The
  grayscale conversion is OpenCV's, with its fixed-point weights. The Fourier transform
  is only applied to the images with the single white pixel, where it is the value the
  package computes: the transform of an impulse at the origin is constant. Conversion
  to RGB and resizing keep the pixels, as PIL does for an RGB image that already has
  the requested size. The other fields are small stand-ins that let every stage return.
\<close>

definition opencv_gray :: "uint8 list \<Rightarrow> uint8" where
  "opencv_gray px =
     word_of_nat ((unat (px ! 0) * 4899 + unat (px ! 1) * 9617 + unat (px ! 2) * 1868 + 8192) div 16384)"

definition example_exc :: py_exc where
  "example_exc = \<lparr>exc_type = ''ValueError'', exc_message = ''boom'', exc_frames = []\<rparr>"

definition example_matches :: "dmatch list" where
  "example_matches =
     [\<lparr>queryIdx = 0, trainIdx = 0, distance = 70\<rparr>, \<lparr>queryIdx = 1, trainIdx = 1, distance = 10\<rparr>]"

definition impulse_fft2 :: "gray_array \<Rightarrow> complex list list" where
  "impulse_fft2 g =
     (case g of
        [] \<Rightarrow> []
      | r # _ \<Rightarrow> (case r of
                    [] \<Rightarrow> map (\<lambda>row. []) g
                  | v # _ \<Rightarrow> map (map (\<lambda>_. complex_of_real (as_real v))) g))"

definition img_A :: rgb_array where
  "img_A = ([255, 255, 255] # replicate 6 [0, 0, 0]) # replicate 6 (replicate 7 [0, 0, 0])"

definition img_B :: rgb_array where
  "img_B = replicate 7 (replicate 7 [255, 255, 255])"

definition img_row :: rgb_array where
  "img_row = [[255, 255, 255] # replicate 40 [0, 0, 0]]"

definition pil_A :: pil_image where
  "pil_A = \<lparr>pil_width = 7, pil_height = 7, pil_format = Some ''PNG'', pil_mode = ''RGB'',
            pil_array = Arr3 img_A\<rparr>"

definition pil_B :: pil_image where
  "pil_B = \<lparr>pil_width = 7, pil_height = 7, pil_format = Some ''PNG'', pil_mode = ''RGB'',
            pil_array = Arr3 img_B\<rparr>"

definition example_bytes :: bytes where
  "example_bytes = [137, 80, 78, 71]"

definition example_stream :: nat where
  "example_stream = 140233702264336"

definition other_stream :: nat where
  "other_stream = 140233702301152"

definition example_libs :: libs where
  "example_libs =
     \<lparr>Image_open = (\<lambda>fp. if getvalue fp = [] then Inl example_exc else Inr pil_A),
      Image_convert = (\<lambda>p m. Inr (p\<lparr>pil_format := None, pil_mode := m\<rparr>)),
      Image_resize_LANCZOS = (\<lambda>p sz. Inr (p\<lparr>pil_width := fst sz, pil_height := snd sz\<rparr>)),
      imagehash_phash = (\<lambda>p n. Inr (replicate (n * n) False)),
      imagehash_average_hash = (\<lambda>p. Inr (replicate 64 False)),
      imagehash_dhash = (\<lambda>p. Inr (replicate 64 True)),
      imagehash_whash = (\<lambda>p. Inr (replicate 64 False)),
      imagehash_colorhash = (\<lambda>p. Inr (replicate 42 True)),
      imagehash_str = map (\<lambda>b. if b then CHR ''f'' else CHR ''0''),
      sha256_hexdigest = map (\<lambda>w. if even w then CHR ''a'' else CHR ''b''),
      cv2_cvtColor_RGB2GRAY = (\<lambda>img. case img of
                                  Arr2 g \<Rightarrow> Inl example_exc
                                | Arr3 a \<Rightarrow> Inr (map (map opencv_gray) a)),
      cv2_Canny = (\<lambda>g lo hi. Inr (map (map (\<lambda>v. if 0 < v then 255 else 0)) g)),
      cv2_Sobel_64F = (\<lambda>g dx dy k. Inr (map (map (\<lambda>v. 0)) g)),
      cv2_ORB_detectAndCompute =
        (\<lambda>n g. Inr ([\<lparr>kp_x = 1, kp_y = 1\<rparr>, \<lparr>kp_x = 2, kp_y = 3\<rparr>],
                     Some [replicate 32 0, replicate 32 255])),
      cv2_BFMatcher_HAMMING_match = (\<lambda>crossCheck d1 d2. Inr example_matches),
      cv2_calcHist = (\<lambda>img c bins. Inr (replicate bins 0)),
      np_fft_fft2 = impulse_fft2,
      np_unique_rows_counts = (\<lambda>px. case px of [] \<Rightarrow> ([], []) | p # _ \<Rightarrow> ([p], [length px])),
      scipy_entropy = (\<lambda>pk. 0),
      scipy_skew = (\<lambda>xs. NaN),
      scipy_kurtosis = (\<lambda>xs. NaN),
      skimage_graycomatrix = (\<lambda>g ds as. Inr []),
      skimage_graycoprops = (\<lambda>m prop. Inr [[0]]),
      system_info = ([], [], [])\<rparr>"

definition example_cfg :: config where
  "example_cfg = \<lparr>SSIM_WEIGHT = 0.5, PHASH_WEIGHT = 0.3, ORB_WEIGHT = 0.2,
                    PHASH_SIZE = 16, ORB_MAX_FEATURES = 500\<rparr>"

definition clock_1 :: clock_reading where
  "clock_1 = \<lparr>isoformat = ''2025-01-01T00:00:00'', epoch_seconds = 1735689600\<rparr>"

definition clock_2 :: clock_reading where
  "clock_2 = \<lparr>isoformat = ''2025-01-01T00:00:01'', epoch_seconds = 1735689601\<rparr>"

definition clock_3 :: clock_reading where
  "clock_3 = \<lparr>isoformat = ''2025-01-01T00:00:02'', epoch_seconds = 1735689602\<rparr>"

section \<open>Observations used by the theorems\<close>

text \<open>
  The one field of the metadata that is read from the clock is \<^verbatim>\<open>scan_timestamp\<close>
  (line 79); \<open>without_timestamp\<close> blanks exactly this field.
\<close>

definition without_timestamp :: "metadata \<Rightarrow> metadata" where
  "without_timestamp m = m\<lparr>scan_timestamp := []\<rparr>"

text \<open>Two variants of the instance, in which one stage raises.\<close>

definition libs_color_fails :: libs where
  "libs_color_fails = example_libs\<lparr>cv2_calcHist := (\<lambda>img c bins. Inl example_exc)\<rparr>"

definition libs_texture_fails :: libs where
  "libs_texture_fails = example_libs\<lparr>skimage_graycomatrix := (\<lambda>g ds as. Inl example_exc)\<rparr>"

definition failure_at :: "(string \<times> nat) list \<Rightarrow> scan_failure" where
  "failure_at frames =
     \<lparr>error_type = ''ValueError'',
      error_message = ''boom'',
      err_scan_duration_seconds = 2,
      err_timestamp = ''2025-01-01T00:00:02Z'',
      image_bytes_length = 4,
      traceback = frames,
      err_system_info = ([], [], []),
      err_message = ''Scan failed - see error details''\<rparr>"

text \<open>Variants of the instance for the key-point matcher, and the arrays the instance computes.\<close>

definition libs_no_descriptors :: libs where
  "libs_no_descriptors = example_libs\<lparr>cv2_ORB_detectAndCompute := (\<lambda>n g. Inr ([], None))\<rparr>"

definition libs_no_matches :: libs where
  "libs_no_matches = example_libs\<lparr>cv2_BFMatcher_HAMMING_match := (\<lambda>crossCheck d1 d2. Inr [])\<rparr>"

definition gray_A :: gray_array where
  "gray_A = (255 # replicate 6 0) # replicate 6 (replicate 7 0)"

definition zeros_A :: "real list list" where
  "zeros_A = map (map (\<lambda>v. 0)) gray_A"

text \<open>A uniformly black image at the working resolution.\<close>

definition black_512 :: rgb_array where
  "black_512 = replicate 512 (replicate 512 [0, 0, 0])"

definition pil_black :: pil_image where
  "pil_black = \<lparr>pil_width = 512, pil_height = 512, pil_format = Some ''PNG'', pil_mode = ''RGB'',
                pil_array = Arr3 black_512\<rparr>"

text \<open>
  The gray versions of the two 7 x 7 example images, and the structural-similarity index
  of the white image against the one-pixel image when the range is taken from the latter.
\<close>

definition gray_f_A :: "real list list" where
  "gray_f_A = (1 # replicate 6 0) # replicate 6 (replicate 7 0)"

definition gray_f_B :: "real list list" where
  "gray_f_B = replicate 7 (replicate 7 1)"

definition ssim_B_A :: real where
  "ssim_B_A = ((2 / 49 + 1 / 10000) * (9 / 10000)) / ((1 + 1 / 2401 + 1 / 10000) * (1 / 49 + 9 / 10000))"

section \<open>Basic facts\<close>

lemma bind_exc_Inr [simp]: "bind_exc (Inr x) k = k x"
  by (simp add: bind_exc_def)

lemma bind_exc_Inl [simp]: "bind_exc (Inl e) k = Inl e"
  by (simp add: bind_exc_def)

lemma in_frame_Inr [simp]: "in_frame f l (Inr v) = Inr v"
  by (simp add: in_frame_def)

lemma in_frame_Inl [simp]:
  "in_frame f l (Inl e) = Inl (e\<lparr>exc_frames := (f, l) # exc_frames e\<rparr>)"
  by (simp add: in_frame_def)

lemma bind_exc_Inr_iff: "bind_exc r k = Inr v \<longleftrightarrow> (\<exists>x. r = Inr x \<and> k x = Inr v)"
  by (cases r) simp_all

lemma in_frame_Inr_iff: "in_frame f l r = Inr v \<longleftrightarrow> r = Inr v"
  by (cases r) simp_all

lemma length_concat_replicate [simp]: "length (concat (replicate n xs)) = n * length xs"
  by (induction n) simp_all

lemma concat_replicate_replicate [simp]:
  "concat (replicate n (replicate m x)) = replicate (n * m) x"
  by (induction n) (simp_all add: replicate_add)

lemma map_sum_bind_exc:
  "map_sum id f (bind_exc r k) = bind_exc r (\<lambda>x. map_sum id f (k x))"
  by (cases r) simp_all

lemma map_sum_in_frame:
  "map_sum id f (in_frame fn l r) = in_frame fn l (map_sum id f r)"
  by (cases r) simp_all

subsection \<open>What a returned result says about the stages\<close>

lemma extract_Inr_hashes:
  assumes "extract_image_metadata L cfg utcnow pil = Inr m"
  shows "design_fingerprint (md_hashes m) =
     sha256_hexdigest L (str_encode (perceptual_hash (md_hashes m) @ average_hash (md_hashes m) @
        difference_hash (md_hashes m) @ wavelet_hash (md_hashes m) @ color_hash (md_hashes m) @
        sha256 (md_hashes m)))"
  using assms
  unfolding extract_image_metadata_def create_design_fingerprint_def
  by (auto simp add: bind_exc_Inr_iff in_frame_Inr_iff Let_def split: if_splits)

lemma extract_Inr_timestamp:
  assumes "extract_image_metadata L cfg utcnow pil = Inr m"
  shows "scan_timestamp m = isoformat utcnow @ ''Z''"
  using assms
  unfolding extract_image_metadata_def
  by (auto simp add: bind_exc_Inr_iff in_frame_Inr_iff Let_def split: if_splits)

lemma extract_Inr_stages:
  assumes "extract_image_metadata L cfg utcnow pil0 = Inr m"
  shows "\<exists>pil img h1 h2 h3 h4 h5.
      Image_convert L pil0 ''RGB'' = Inr pil
    \<and> pil_to_np L pil (Some (512, 512)) = Inr img
    \<and> imagehash_phash L pil (PHASH_SIZE cfg) = Inr h1
    \<and> imagehash_average_hash L pil = Inr h2
    \<and> imagehash_dhash L pil = Inr h3
    \<and> imagehash_whash L pil = Inr h4
    \<and> imagehash_colorhash L pil = Inr h5
    \<and> perceptual_hash (md_hashes m) = imagehash_str L h1
    \<and> average_hash (md_hashes m) = imagehash_str L h2
    \<and> difference_hash (md_hashes m) = imagehash_str L h3
    \<and> wavelet_hash (md_hashes m) = imagehash_str L h4
    \<and> color_hash (md_hashes m) = imagehash_str L h5
    \<and> sha256 (md_hashes m) = sha256_hexdigest L (tobytes img)
    \<and> extract_color_features L img = Inr (md_color_analysis m)
    \<and> extract_texture_features L img = Inr (md_texture_features m)
    \<and> extract_orb_features L cfg img = Inr (md_orb_features m)
    \<and> extract_pixel_statistics L img = Inr (md_pixel_statistics m)
    \<and> extract_edge_features L img = Inr (md_edge_features m)
    \<and> extract_frequency_features L img = Inr (md_frequency_features m)"
  using assms
  unfolding extract_image_metadata_def
  by (auto simp add: bind_exc_Inr_iff in_frame_Inr_iff Let_def split: if_splits)

lemma scan_Success_iff:
  "scan_design_for_blockchain L cfg stream_id t0 t1 t2 b = Success s \<longleftrightarrow>
     (\<exists>pil0 m. Image_open L \<lparr>object_id = stream_id, getvalue = b\<rparr> = Inr pil0 \<and> extract_image_metadata L cfg t1 pil0 = Inr m \<and>
        s = \<lparr>ok_design_id = design_fingerprint (md_hashes m), ok_metadata = m,
             ok_scan_duration_seconds = py_round (epoch_seconds t2 - epoch_seconds t0) 2,
             ok_message = ''Design scanned successfully. Ready for blockchain integration.''\<rparr>)"
  unfolding scan_design_for_blockchain_def load_image_bytes_def Let_def
  by (auto simp add: bind_exc_Inr_iff in_frame_Inr_iff split: sum.splits)

lemma scan_Failure_iff:
  "scan_design_for_blockchain L cfg stream_id t0 t1 t2 b = Failure f \<longleftrightarrow>
     (\<exists>e. bind_exc (in_frame ''scan_design_for_blockchain'' 370 (load_image_bytes L stream_id b))
             (\<lambda>p. in_frame ''scan_design_for_blockchain'' 374 (extract_image_metadata L cfg t1 p))
           = Inl e \<and>
        f = \<lparr>error_type = exc_type e, error_message = exc_message e,
             err_scan_duration_seconds = py_round (epoch_seconds t2 - epoch_seconds t0) 2,
             err_timestamp = isoformat t2 @ ''Z'',
             image_bytes_length = length b,
             traceback = exc_frames e,
             err_system_info = system_info L,
             err_message = ''Scan failed - see error details''\<rparr>)"
  unfolding scan_design_for_blockchain_def Let_def
  by (auto split: sum.splits)

lemma extract_clock:
  "map_sum id without_timestamp (extract_image_metadata L cfg t1 pil)
   = map_sum id without_timestamp (extract_image_metadata L cfg t2 pil)"
  unfolding extract_image_metadata_def
  by (simp add: map_sum_bind_exc map_sum_in_frame Let_def without_timestamp_def if_distrib
      cong: if_cong)

lemma extract_clock_fingerprint:
  "map_sum id (\<lambda>m. design_fingerprint (md_hashes m)) (extract_image_metadata L cfg t1 pil)
   = map_sum id (\<lambda>m. design_fingerprint (md_hashes m)) (extract_image_metadata L cfg t2 pil)"
  unfolding extract_image_metadata_def
  by (simp add: map_sum_bind_exc map_sum_in_frame Let_def if_distrib cong: if_cong)

subsection \<open>The instance runs every stage\<close>

lemma example_libs_pil:
  "Image_open example_libs fp = (if getvalue fp = [] then Inl example_exc else Inr pil_A)"
  "Image_convert example_libs p m = Inr (p\<lparr>pil_format := None, pil_mode := m\<rparr>)"
  "Image_resize_LANCZOS example_libs p sz = Inr (p\<lparr>pil_width := fst sz, pil_height := snd sz\<rparr>)"
  "imagehash_phash example_libs p n = Inr (replicate (n * n) False)"
  "imagehash_average_hash example_libs p = Inr (replicate 64 False)"
  "imagehash_dhash example_libs p = Inr (replicate 64 True)"
  "imagehash_whash example_libs p = Inr (replicate 64 False)"
  "imagehash_colorhash example_libs p = Inr (replicate 42 True)"
  by (simp_all add: example_libs_def)

lemma example_color: "\<exists>c. extract_color_features example_libs (Arr3 img_A) = Inr c"
  by (simp add: extract_color_features_def example_libs_def img_A_def shape2_def Let_def
      argmax_def)

lemma example_texture: "\<exists>c. extract_texture_features example_libs (Arr3 img_A) = Inr c"
  by (simp add: extract_texture_features_def example_libs_def img_A_def shape2_def Let_def
      rgb2gray_def)

lemma example_orb: "\<exists>c. extract_orb_features example_libs example_cfg (Arr3 img_A) = Inr c"
  by (simp add: extract_orb_features_def example_libs_def img_A_def shape0_def shape1_def Let_def)

lemma example_pixel: "\<exists>c. extract_pixel_statistics example_libs (Arr3 img_A) = Inr c"
  by (simp add: extract_pixel_statistics_def example_libs_def img_A_def Let_def tobytes_def
      tobytes3_def)

lemma example_edge: "\<exists>c. extract_edge_features example_libs (Arr3 img_A) = Inr c"
  by (simp add: extract_edge_features_def example_libs_def img_A_def Let_def)

lemma example_freq: "\<exists>c. extract_frequency_features example_libs (Arr3 img_A) = Inr c"
  by (simp add: extract_frequency_features_def example_libs_def img_A_def Let_def)

lemma example_extract:
  "\<exists>m. extract_image_metadata example_libs example_cfg t pil_A = Inr m"
proof -
  obtain c1 where c1: "extract_color_features example_libs (Arr3 img_A) = Inr c1"
    using example_color by blast
  obtain c2 where c2: "extract_texture_features example_libs (Arr3 img_A) = Inr c2"
    using example_texture by blast
  obtain c3 where c3: "extract_orb_features example_libs example_cfg (Arr3 img_A) = Inr c3"
    using example_orb by blast
  obtain c4 where c4: "extract_pixel_statistics example_libs (Arr3 img_A) = Inr c4"
    using example_pixel by blast
  obtain c5 where c5: "extract_edge_features example_libs (Arr3 img_A) = Inr c5"
    using example_edge by blast
  obtain c6 where c6: "extract_frequency_features example_libs (Arr3 img_A) = Inr c6"
    using example_freq by blast
  show ?thesis
    unfolding extract_image_metadata_def pil_to_np_def
    by (simp add: example_libs_pil pil_A_def c1 c2 c3 c4 c5 c6 Let_def)
qed

lemma example_scan:
  "\<exists>s. scan_design_for_blockchain example_libs example_cfg stream_id t0 t1 t2 example_bytes = Success s"
proof -
  obtain m where "extract_image_metadata example_libs example_cfg t1 pil_A = Inr m"
    using example_extract by blast
  then show ?thesis
    by (simp add: scan_Success_iff example_libs_pil example_bytes_def)
qed

lemma py_round_2_2: "py_round 2 2 = 2"
  by (simp add: py_round_def round_half_even_def)

lemma scan_color_fails:
  "scan_design_for_blockchain libs_color_fails example_cfg example_stream clock_1 clock_2 clock_3 example_bytes
   = Failure (failure_at [(''scan_design_for_blockchain'', 374), (''extract_image_metadata'', 49),
                          (''extract_color_features'', 161)])"
proof -
  have c: "extract_color_features libs_color_fails (Arr3 img_A)
           = Inl (example_exc\<lparr>exc_frames := [(''extract_color_features'', 161)]\<rparr>)"
    by (simp add: extract_color_features_def libs_color_fails_def example_libs_def img_A_def
        shape2_def Let_def argmax_def example_exc_def)
  have l: "Image_open libs_color_fails = Image_open example_libs"
    "Image_convert libs_color_fails = Image_convert example_libs"
    "Image_resize_LANCZOS libs_color_fails = Image_resize_LANCZOS example_libs"
    "imagehash_phash libs_color_fails = imagehash_phash example_libs"
    "imagehash_average_hash libs_color_fails = imagehash_average_hash example_libs"
    "imagehash_dhash libs_color_fails = imagehash_dhash example_libs"
    "imagehash_whash libs_color_fails = imagehash_whash example_libs"
    "imagehash_colorhash libs_color_fails = imagehash_colorhash example_libs"
    "system_info libs_color_fails = ([], [], [])"
    by (simp_all add: libs_color_fails_def example_libs_def)
  have e: "extract_image_metadata libs_color_fails example_cfg clock_2 pil_A
           = Inl (example_exc\<lparr>exc_frames := [(''extract_image_metadata'', 49),
                                                (''extract_color_features'', 161)]\<rparr>)"
    unfolding extract_image_metadata_def pil_to_np_def
    by (simp add: l example_libs_pil pil_A_def c Let_def)
  show ?thesis
    unfolding scan_design_for_blockchain_def load_image_bytes_def Let_def
    by (simp add: l example_libs_pil example_bytes_def e failure_at_def example_exc_def
        clock_1_def clock_3_def py_round_2_2)
qed

lemma scan_texture_fails:
  "scan_design_for_blockchain libs_texture_fails example_cfg example_stream clock_1 clock_2 clock_3 example_bytes
   = Failure (failure_at [(''scan_design_for_blockchain'', 374), (''extract_image_metadata'', 53),
                          (''extract_texture_features'', 205)])"
proof -
  have c: "\<exists>c. extract_color_features libs_texture_fails (Arr3 img_A) = Inr c"
    by (simp add: extract_color_features_def libs_texture_fails_def example_libs_def img_A_def
        shape2_def Let_def argmax_def)
  then obtain c1 where c1: "extract_color_features libs_texture_fails (Arr3 img_A) = Inr c1"
    by blast
  have t: "extract_texture_features libs_texture_fails (Arr3 img_A)
           = Inl (example_exc\<lparr>exc_frames := [(''extract_texture_features'', 205)]\<rparr>)"
    by (simp add: extract_texture_features_def libs_texture_fails_def example_libs_def img_A_def
        shape2_def Let_def rgb2gray_def example_exc_def)
  have l: "Image_open libs_texture_fails = Image_open example_libs"
    "Image_convert libs_texture_fails = Image_convert example_libs"
    "Image_resize_LANCZOS libs_texture_fails = Image_resize_LANCZOS example_libs"
    "imagehash_phash libs_texture_fails = imagehash_phash example_libs"
    "imagehash_average_hash libs_texture_fails = imagehash_average_hash example_libs"
    "imagehash_dhash libs_texture_fails = imagehash_dhash example_libs"
    "imagehash_whash libs_texture_fails = imagehash_whash example_libs"
    "imagehash_colorhash libs_texture_fails = imagehash_colorhash example_libs"
    "system_info libs_texture_fails = ([], [], [])"
    by (simp_all add: libs_texture_fails_def example_libs_def)
  have e: "extract_image_metadata libs_texture_fails example_cfg clock_2 pil_A
           = Inl (example_exc\<lparr>exc_frames := [(''extract_image_metadata'', 53),
                                                (''extract_texture_features'', 205)]\<rparr>)"
    unfolding extract_image_metadata_def pil_to_np_def
    by (simp add: l example_libs_pil pil_A_def c1 t Let_def)
  show ?thesis
    unfolding scan_design_for_blockchain_def load_image_bytes_def Let_def
    by (simp add: l example_libs_pil example_bytes_def e failure_at_def example_exc_def
        clock_1_def clock_3_def py_round_2_2)
qed

subsection \<open>Rounding\<close>

lemma round_half_even_le: "x \<le> of_int k \<Longrightarrow> round_half_even x \<le> k"
proof -
  assume x: "x \<le> of_int k"
  then have fl: "\<lfloor>x\<rfloor> \<le> k" by (simp add: floor_le_iff)
  show ?thesis
  proof (cases "\<lfloor>x\<rfloor> = k")
    case True
    then have "of_int k \<le> x" by (metis of_int_floor_le)
    with x have "x - of_int \<lfloor>x\<rfloor> = 0" using True by simp
    then show ?thesis by (simp add: round_half_even_def Let_def True)
  next
    case False
    with fl have "\<lfloor>x\<rfloor> + 1 \<le> k" by simp
    then show ?thesis by (simp add: round_half_even_def Let_def)
  qed
qed

lemma round_half_even_ge: "of_int k \<le> x \<Longrightarrow> k \<le> round_half_even x"
proof -
  assume "of_int k \<le> x"
  then have "k \<le> \<lfloor>x\<rfloor>" by (simp add: le_floor_iff)
  then show ?thesis by (simp add: round_half_even_def Let_def)
qed

lemma py_round_nonneg: "0 \<le> x \<Longrightarrow> 0 \<le> py_round x n"
proof -
  assume "0 \<le> x"
  then have "of_int 0 \<le> x * 10 ^ n" by simp
  then have "0 \<le> round_half_even (x * 10 ^ n)" by (rule round_half_even_ge)
  then show ?thesis by (simp add: py_round_def)
qed

lemma py_round_le_int: "x \<le> of_int k \<Longrightarrow> py_round x n \<le> of_int k"
proof -
  assume "x \<le> of_int k"
  then have "x * 10 ^ n \<le> of_int (k * 10 ^ n)" by simp
  then have "round_half_even (x * 10 ^ n) \<le> k * 10 ^ n" by (rule round_half_even_le)
  then have "(of_int (round_half_even (x * 10 ^ n)) :: real) \<le> of_int (k * 10 ^ n)"
    by (simp only: of_int_le_iff)
  then show ?thesis by (simp add: py_round_def divide_le_eq)
qed

subsection \<open>Sorting does not change how many matches pass the threshold\<close>

lemma length_filter_sort_key:
  "length (filter P (sort_key f xs)) = length (filter P xs)"
  by (simp add: filter_sort)

lemma clip_unit_id: "0 \<le> x \<Longrightarrow> x \<le> 1 \<Longrightarrow> min (max x 0) 1 = (x::real)"
  by (simp add: min_def max_def)

subsection \<open>Slices and sums of non-negative arrays\<close>

lemma sum_list_concat: "sum_list (concat xss) = sum_list (map sum_list xss)"
  by (induction xss) simp_all

lemma sum_list_take_drop_le:
  fixes xs :: "real list"
  assumes "\<forall>x \<in> set xs. 0 \<le> x"
  shows "sum_list (take k (drop s xs)) \<le> sum_list xs"
proof -
  have xs: "xs = take s xs @ take k (drop s xs) @ drop k (drop s xs)"
    by (metis append_take_drop_id)
  have a: "0 \<le> sum_list (take s xs)"
    using assms by (intro sum_list_nonneg) (auto dest: in_set_takeD)
  have b: "0 \<le> sum_list (drop k (drop s xs))"
    using assms by (intro sum_list_nonneg) (auto dest!: in_set_dropD)
  have "sum_list xs = sum_list (take s xs) + sum_list (take k (drop s xs))
      + sum_list (drop k (drop s xs))"
    by (subst xs) (simp only: sum_list_append add.assoc)
  with a b show ?thesis by linarith
qed

lemma sum_list_py_slice_le:
  fixes xs :: "real list"
  assumes "\<forall>x \<in> set xs. 0 \<le> x"
  shows "sum_list (py_slice xs a b) \<le> sum_list xs"
  unfolding py_slice_def Let_def using assms by (rule sum_list_take_drop_le)

lemma set_py_slice_subset: "set (py_slice xs a b) \<subseteq> set xs"
  unfolding py_slice_def Let_def by (auto dest: in_set_takeD in_set_dropD)

lemma map_py_slice: "map f (py_slice xs a b) = py_slice (map f xs) a b"
  unfolding py_slice_def Let_def by (simp add: take_map drop_map)

lemma low_freq_region_sum_le:
  fixes m :: "real list list"
  assumes "\<forall>row \<in> set m. \<forall>x \<in> set row. 0 \<le> x"
  shows "sum_list (concat (low_freq_region m)) \<le> sum_list (concat m)"
proof -
  let ?cy = "int (shape0 m div 2)" and ?cx = "int (shape1 m div 2)"
  let ?rows = "py_slice m (?cy - 20) (?cy + 20)"
  have rows: "set ?rows \<subseteq> set m" by (rule set_py_slice_subset)
  have "sum_list (concat (low_freq_region m))
      = sum_list (map (\<lambda>row. sum_list (py_slice row (?cx - 20) (?cx + 20))) ?rows)"
    by (simp add: low_freq_region_def Let_def sum_list_concat comp_def)
  also have "\<dots> \<le> sum_list (map sum_list ?rows)"
  proof (rule sum_list_mono)
    fix row assume "row \<in> set ?rows"
    with rows assms have "\<forall>x \<in> set row. 0 \<le> x" by blast
    then show "sum_list (py_slice row (?cx - 20) (?cx + 20)) \<le> sum_list row"
      by (rule sum_list_py_slice_le)
  qed
  also have "\<dots> = sum_list (py_slice (map sum_list m) (?cy - 20) (?cy + 20))"
    by (simp add: map_py_slice)
  also have "\<dots> \<le> sum_list (map sum_list m)"
  proof (rule sum_list_py_slice_le)
    show "\<forall>x \<in> set (map sum_list m). 0 \<le> x"
      using assms by (auto intro: sum_list_nonneg)
  qed
  also have "\<dots> = sum_list (concat m)"
    by (simp add: sum_list_concat)
  finally show ?thesis .
qed

lemma py_slice_centre:
  assumes "40 \<le> length xs"
  shows "py_slice xs (int (length xs div 2) - 20) (int (length xs div 2) + 20)
         = take 40 (drop (length xs div 2 - 20) xs)"
proof -
  have a: "slice_bound (length xs) (int (length xs div 2) - 20) = length xs div 2 - 20"
    using assms by (simp add: slice_bound_def) linarith
  have b: "slice_bound (length xs) (int (length xs div 2) + 20) = length xs div 2 + 20"
    using assms by (simp add: slice_bound_def)
  have "length xs div 2 + 20 - (length xs div 2 - 20) = 40"
    using assms by linarith
  then show ?thesis
    by (simp add: py_slice_def Let_def a b)
qed

lemma fftshift1_centre:
  assumes "xs \<noteq> []"
  shows "fftshift1 xs ! (length xs div 2) = xs ! 0"
proof -
  have lt: "length xs div 2 < length xs" using assms by (cases xs) simp_all
  have "(length xs - length xs div 2 + length xs div 2) mod length xs = 0"
    using lt by simp
  then show ?thesis
    using lt by (simp add: fftshift1_def nth_rotate)
qed

lemma fftshift1_replicate: "fftshift1 (replicate n c) = replicate n c"
proof -
  have "drop k (replicate n c) @ take k (replicate n c) = replicate n c" for k
  proof -
    have "drop k (replicate n c) @ take k (replicate n c)
          = replicate ((n - k) + min k n) c"
      by (simp only: drop_replicate take_replicate replicate_add)
    moreover have "(n - k) + min k n = n" by simp
    ultimately show ?thesis by simp
  qed
  then show ?thesis
    by (simp add: fftshift1_def rotate_drop_take)
qed

subsection \<open>The instance on the example arrays\<close>

lemma py_round_0: "py_round 0 n = 0"
  by (simp add: py_round_def round_half_even_def)

lemma unat_255: "unat (255 :: uint8) = 255"
  by simp

lemma opencv_gray_white: "opencv_gray [255, 255, 255] = 255"
  by (simp add: opencv_gray_def)

lemma opencv_gray_black: "opencv_gray [0, 0, 0] = 0"
  by (simp add: opencv_gray_def)

lemma example_gray_A: "cv2_cvtColor_RGB2GRAY example_libs (Arr3 img_A) = Inr gray_A"
  by (simp add: example_libs_def img_A_def gray_A_def opencv_gray_white opencv_gray_black)

lemma example_canny_A: "cv2_Canny example_libs gray_A 100 200 = Inr gray_A"
  by (simp add: example_libs_def gray_A_def)

lemma example_sobel_A: "cv2_Sobel_64F example_libs gray_A dx dy k = Inr zeros_A"
  by (simp add: example_libs_def zeros_A_def)

lemma count_edge_pixels_A: "count_edge_pixels gray_A = 1"
  by (simp add: count_edge_pixels_def gray_A_def)

lemma array_size_A: "array_size gray_A = 49"
  by (simp add: array_size_def gray_A_def)

lemma py_round_edge_A: "py_round (100 / 49) 2 = 204 / 100"
proof -
  have "\<lfloor>(10000 :: real) / 49\<rfloor> = 204"
    by (rule floor_unique) simp_all
  then show ?thesis
    by (simp add: py_round_def round_half_even_def Let_def)
qed

lemma sobel_magnitude_zeros: "sum_list (concat (sobel_magnitude zeros_A zeros_A)) = 0"
  by (simp add: sobel_magnitude_def zeros_A_def gray_A_def sum_list_replicate)

lemma example_edge_A:
  "extract_edge_features example_libs (Arr3 img_A)
   = Inr \<lparr>edge_density_percentage = 204 / 100, edge_strength = 0, has_strong_edges = False\<rparr>"
proof -
  have m: "np_mean (concat (sobel_magnitude zeros_A zeros_A)) = 0"
    by (simp add: sobel_magnitude_zeros np_mean_def)
  show ?thesis
    by (simp add: extract_edge_features_def example_gray_A example_canny_A example_sobel_A
        count_edge_pixels_A array_size_A py_round_edge_A m py_round_0 Let_def)
qed

lemma length_take_centre:
  assumes "40 \<le> length xs"
  shows "length (take 40 (drop (length xs div 2 - 20) xs)) = 40"
proof -
  have "40 \<le> length xs - (length xs div 2 - 20)"
    using assms by linarith
  then show ?thesis by simp
qed

subsection \<open>The instance on the single-row example\<close>

lemma example_gray_row:
  "cv2_cvtColor_RGB2GRAY example_libs (Arr3 img_row) = Inr [255 # replicate 40 0]"
  by (simp add: example_libs_def img_row_def opencv_gray_white opencv_gray_black)

lemma example_fft2_row:
  "np_fft_fft2 example_libs [255 # replicate 40 0] = [replicate 41 (complex_of_real 255)]"
proof -
  have "replicate 41 (complex_of_real 255) = complex_of_real 255 # replicate 40 (complex_of_real 255)"
    by (simp add: numeral_eq_Suc)
  then show ?thesis
    by (simp add: example_libs_def impulse_fft2_def as_real_def)
qed

lemma fftshift1_single: "fftshift1 [x] = [x]"
  by (simp add: fftshift1_def)

lemma example_spectrum_row:
  "map (map cmod) (fftshift (np_fft_fft2 example_libs [255 # replicate 40 0])) = [replicate 41 255]"
  by (simp add: example_fft2_row fftshift_def fftshift1_replicate fftshift1_single)

lemma low_freq_region_row: "low_freq_region [replicate 41 (255::real)] = [replicate 40 255]"
  by (simp add: low_freq_region_def shape0_def shape1_def py_slice_def slice_bound_def Let_def)

lemma py_round_ratio_row_normal: "py_round (2550000000000 / 102000000000001) 2 = 2 / 100"
proof -
  let ?x = "255000000000000 / (102000000000001 :: real)"
  have lo: "2 \<le> ?x" by simp
  have hi: "?x < 5 / 2" by simp
  have fl: "\<lfloor>?x\<rfloor> = 2"
    using lo hi by (intro floor_unique) simp_all
  have "?x - 2 < 1 / 2"
    using hi by simp
  then have "round_half_even ?x = 2"
    unfolding round_half_even_def Let_def fl by simp
  then show ?thesis
    by (simp add: py_round_def)
qed

lemma py_round_ratio_row: "py_round (255 / (10200 + 1 / 10 ^ 10)) 2 = 2 / 100"
proof -
  have "255 / (10200 + 1 / 10 ^ 10) = (2550000000000 / 102000000000001 :: real)"
    by simp
  then show ?thesis
    by (simp only: py_round_ratio_row_normal)
qed

lemma py_round_int: "py_round (of_int k) n = of_int k"
proof -
  have e: "(of_int k :: real) * 10 ^ n = of_int (k * 10 ^ n)"
    by simp
  have "round_half_even (of_int k * 10 ^ n) = k * 10 ^ n"
    unfolding round_half_even_def Let_def e floor_of_int by simp
  then show ?thesis
    by (simp add: py_round_def)
qed

lemma example_freq_row:
  "extract_frequency_features example_libs (Arr3 img_row)
   = Inr \<lparr>low_frequency_energy = 10200, high_frequency_energy = 255,
          frequency_ratio = 2 / 100, detail_level = ''low''\<rparr>"
proof -
  have a: "py_round 10200 2 = 10200" using py_round_int [of 10200 2] by simp
  have b: "py_round 255 2 = 255" using py_round_int [of 255 2] by simp
  show ?thesis
    by (simp add: extract_frequency_features_def example_gray_row example_spectrum_row
        low_freq_region_row np_sum_def sum_list_replicate py_round_ratio_row_normal a b Let_def)
qed

subsection \<open>The structural-similarity index of a uniform image with itself\<close>

lemma windows2_replicate:
  assumes "7 \<le> H" and "7 \<le> W"
  shows "windows2 (replicate H (replicate W c)) = replicate ((H - 6) * (W - 6)) (replicate 49 c)"
proof -
  obtain h where H: "H = Suc h" using assms(1) by (cases H) simp_all
  have s0: "shape0 (replicate H (replicate W c)) = H" by (simp add: shape0_def)
  have s1: "shape1 (replicate H (replicate W c)) = W" by (simp add: shape1_def H)
  have row: "take 7 (drop j (replicate W c)) = replicate 7 c" if "j < W - 6" for j
    using that by simp
  have rows: "take 7 (drop i (replicate H (replicate W c))) = replicate 7 (replicate W c)"
    if "i < H - 6" for i
    using that by simp
  have win: "concat (map (\<lambda>r. take 7 (drop j r)) (take 7 (drop i (replicate H (replicate W c)))))
             = replicate 49 c" if "i < H - 6" and "j < W - 6" for i j
    using that by (simp add: rows row)
  have "windows2 (replicate H (replicate W c))
        = concat (map (\<lambda>i. map (\<lambda>j. replicate 49 c) [0..<W - 6]) [0..<H - 6])"
    unfolding windows2_def s0 s1
    by (intro arg_cong [where f = concat] map_cong refl) (simp add: win)
  also have "\<dots> = replicate ((H - 6) * (W - 6)) (replicate 49 c)"
    by (simp add: map_replicate_const)
  finally show ?thesis .
qed

lemma ssim_window_uniform_zero_range: "ssim_window 0 (replicate 49 c) (replicate 49 c) = NaN"
  by (simp add: ssim_window_def Let_def zip_replicate sum_list_replicate np_divide_def
      power2_eq_square)

lemma np_mean_f_all_nan: "0 < n \<Longrightarrow> np_mean_f (replicate n NaN) = NaN"
  by (cases n) (simp_all add: np_mean_f_def)

lemma map2_same: "map2 f xs xs = map (\<lambda>x. f x x) xs"
  by (simp add: zip_same_conv_map)

lemma structural_similarity_uniform:
  assumes "7 \<le> H" and "7 \<le> W"
  shows "structural_similarity (Gray2 (replicate H (replicate W c)))
           (Gray2 (replicate H (replicate W c))) 0 = Inr NaN"
proof -
  obtain h where H: "H = Suc h" using assms(1) by (cases H) simp_all
  have n: "0 < (H - 6) * (W - 6)" using assms by simp
  have shape: "gray_shape (Gray2 (replicate H (replicate W c))) = [H, W]"
    by (simp add: gray_shape_def shape0_def shape1_def H)
  show ?thesis
    using assms
    by (simp add: structural_similarity_def shape gray_windows_def windows2_replicate map2_same
        ssim_window_uniform_zero_range np_mean_f_all_nan [OF n] del: replicate_eq_replicate)
qed

lemma compute_ssim_uniform:
  assumes "7 \<le> H" and "7 \<le> W" and "length px = 3"
  shows "compute_ssim (Arr3 (replicate H (replicate W px))) (Arr3 (replicate H (replicate W px)))
         = Inr NaN"
proof -
  obtain h where H: "H = Suc h" using assms(1) by (cases H) simp_all
  obtain w where W: "W = Suc w" using assms(2) by (cases W) simp_all
  let ?a = "replicate H (replicate W px)"
  let ?c = "luminance px"
  have s2: "shape2 ?a = 3" by (simp add: shape2_def H W assms(3))
  have d: "drop_alpha_at l (Arr3 ?a) = Inr (Arr3 ?a)" for l
    by (simp add: drop_alpha_at_def last_axis_def s2)
  have g: "rgb2gray (Arr3 ?a) = Inr (Gray2 (replicate H (replicate W ?c)))"
    by (simp add: rgb2gray_def s2)
  have v: "gray_values (Gray2 (replicate H (replicate W ?c))) = replicate (H * W) ?c"
    by (simp add: gray_values_def)
  have hw: "H * W \<noteq> 0" by (simp add: H W)
  have ne: "replicate (H * W) ?c \<noteq> []" using hw by simp
  have st: "set (replicate (H * W) ?c) = {?c}" using hw by (rule set_replicate)
  show ?thesis
    unfolding compute_ssim_def
    using assms(1,2)
    by (simp add: d g v ne st structural_similarity_uniform [OF assms(1,2)] Let_def)
qed

lemma compute_ssim_black: "compute_ssim (Arr3 black_512) (Arr3 black_512) = Inr NaN"
  unfolding black_512_def by (rule compute_ssim_uniform) simp_all

subsection \<open>What a returned comparison is made of\<close>

lemma combined_similarity_Inr:
  assumes "combined_similarity L cfg pil1_0 pil2_0 np_size = Inr r"
  shows "\<exists>pil1 pil2 img1_np img2_np ssim_score phash_score orb_score.
      Image_convert L pil1_0 ''RGB'' = Inr pil1
    \<and> Image_convert L pil2_0 ''RGB'' = Inr pil2
    \<and> pil_to_np L pil1 (Some np_size) = Inr img1_np
    \<and> pil_to_np L pil2 (Some np_size) = Inr img2_np
    \<and> compute_ssim img1_np img2_np = Inr ssim_score
    \<and> compute_phash_similarity L cfg pil1 pil2 = Inr phash_score
    \<and> compute_orb_match_ratio L cfg img1_np img2_np = Inr orb_score
    \<and> score r = np_clip (weighted_sum cfg ssim_score phash_score orb_score) 0 1
    \<and> bd_ssim (breakdown r) = np_clip ssim_score 0 1
    \<and> bd_phash (breakdown r) = np_clip (Fin phash_score) 0 1
    \<and> bd_orb (breakdown r) = np_clip (Fin orb_score) 0 1"
  using assms
  unfolding combined_similarity_def
  by (auto simp add: bind_exc_Inr_iff in_frame_Inr_iff Let_def)

lemma pil_to_np_Inr:
  "pil_to_np L p (Some sz) = Inr a \<longleftrightarrow> (\<exists>q. Image_resize_LANCZOS L p sz = Inr q \<and> pil_array q = a)"
  by (auto simp add: pil_to_np_def bind_exc_Inr_iff in_frame_Inr_iff)

subsection \<open>Comparing an image with itself: the perceptual score\<close>

lemma hamming_self: "hamming h h = 0"
  by (simp add: hamming_def zip_same_conv_map filter_map comp_def)

lemma compute_phash_similarity_self:
  assumes "compute_phash_similarity L cfg p p = Inr s"
  shows "s = 1"
  using assms
  unfolding compute_phash_similarity_def
  by (auto simp add: bind_exc_Inr_iff in_frame_Inr_iff Let_def hamming_self split: if_splits)

lemma weighted_sum_nan: "weighted_sum cfg NaN ph orb = NaN"
  by (simp add: weighted_sum_def)

subsection \<open>The two example images\<close>

lemma map2_replicate_right:
  "length xs = n \<Longrightarrow> map2 f xs (replicate n y) = map (\<lambda>x. f x y) xs"
  by (induction xs arbitrary: n) auto

lemma map2_replicate_left:
  "length ys = n \<Longrightarrow> map2 f (replicate n x) ys = map (\<lambda>y. f x y) ys"
  by (induction ys arbitrary: n) auto

lemma luminance_white: "luminance [255, 255, 255] = 1"
  by (simp add: luminance_def as_real_def)

lemma luminance_black: "luminance [0, 0, 0] = 0"
  by (simp add: luminance_def as_real_def)

lemma rgb2gray_A: "rgb2gray (Arr3 img_A) = Inr (Gray2 gray_f_A)"
  by (simp add: rgb2gray_def img_A_def shape2_def gray_f_A_def luminance_white luminance_black)

lemma rgb2gray_B: "rgb2gray (Arr3 img_B) = Inr (Gray2 gray_f_B)"
proof -
  have "shape2 img_B = 3" by (simp add: shape2_def img_B_def numeral_eq_Suc)
  then show ?thesis
    by (simp add: rgb2gray_def img_B_def gray_f_B_def luminance_white)
qed

lemma windows2_A: "windows2 gray_f_A = [1 # replicate 48 0]"
proof -
  have "(1::real) # replicate 6 0 @ replicate 42 0 = 1 # replicate 48 0"
    by (simp add: replicate_add [symmetric])
  then show ?thesis
    by (simp add: windows2_def gray_f_A_def shape0_def shape1_def)
qed

lemma windows2_B: "windows2 gray_f_B = [replicate 49 1]"
proof -
  have "shape1 gray_f_B = 7" by (simp add: shape1_def gray_f_B_def numeral_eq_Suc)
  then show ?thesis
    by (simp add: windows2_def gray_f_B_def shape0_def)
qed

lemma gray_shape_A: "gray_shape (Gray2 gray_f_A) = [7, 7]"
  by (simp add: gray_shape_def gray_f_A_def shape0_def shape1_def)

lemma gray_shape_B: "gray_shape (Gray2 gray_f_B) = [7, 7]"
  by (simp add: gray_shape_def gray_f_B_def shape0_def shape1_def numeral_eq_Suc)

lemma range_A: "Max (set (gray_values (Gray2 gray_f_A))) - Min (set (gray_values (Gray2 gray_f_A))) = 1"
  by (simp add: gray_values_def gray_f_A_def)

lemma range_B: "Max (set (gray_values (Gray2 gray_f_B))) - Min (set (gray_values (Gray2 gray_f_B))) = 0"
  by (simp add: gray_values_def gray_f_B_def)

lemma ssim_window_A_B: "ssim_window 0 (1 # replicate 48 0) (replicate 49 1) = Fin 0"
  by (simp add: ssim_window_def Let_def map2_replicate_right map2_replicate_left
      sum_list_replicate zip_replicate np_divide_def)

lemma ssim_B_A_range: "0 < ssim_B_A" "ssim_B_A < 1"
  by (simp_all add: ssim_B_A_def)

lemma ssim_window_B_A: "ssim_window 1 (replicate 49 1) (1 # replicate 48 0) = Fin ssim_B_A"
  by (simp add: ssim_window_def Let_def map2_replicate_right map2_replicate_left
      sum_list_replicate zip_replicate np_divide_def ssim_B_A_def power2_eq_square)

lemma compute_ssim_A_B: "compute_ssim (Arr3 img_A) (Arr3 img_B) = Inr (Fin 0)"
proof -
  have d: "drop_alpha_at l (Arr3 img_A) = Inr (Arr3 img_A)"
    "drop_alpha_at l (Arr3 img_B) = Inr (Arr3 img_B)" for l
    by (simp_all add: drop_alpha_at_def last_axis_def shape2_def img_A_def img_B_def numeral_eq_Suc)
  have ne: "gray_values (Gray2 gray_f_B) \<noteq> []"
    by (simp add: gray_values_def gray_f_B_def)
  have s: "structural_similarity (Gray2 gray_f_A) (Gray2 gray_f_B) 0 = Inr (Fin 0)"
    by (simp add: structural_similarity_def gray_shape_A gray_shape_B gray_windows_def
        windows2_A windows2_B ssim_window_A_B np_mean_f_def)
  show ?thesis
    unfolding compute_ssim_def
    by (simp add: d rgb2gray_A rgb2gray_B ne range_B s Let_def)
qed

lemma compute_ssim_B_A: "compute_ssim (Arr3 img_B) (Arr3 img_A) = Inr (Fin ssim_B_A)"
proof -
  have d: "drop_alpha_at l (Arr3 img_A) = Inr (Arr3 img_A)"
    "drop_alpha_at l (Arr3 img_B) = Inr (Arr3 img_B)" for l
    by (simp_all add: drop_alpha_at_def last_axis_def shape2_def img_A_def img_B_def numeral_eq_Suc)
  have ne: "gray_values (Gray2 gray_f_A) \<noteq> []"
    by (simp add: gray_values_def gray_f_A_def)
  have s: "structural_similarity (Gray2 gray_f_B) (Gray2 gray_f_A) 1 = Inr (Fin ssim_B_A)"
    by (simp add: structural_similarity_def gray_shape_A gray_shape_B gray_windows_def
        windows2_A windows2_B ssim_window_B_A np_mean_f_def)
  have c: "min (max ssim_B_A (- 1)) 1 = ssim_B_A"
    using ssim_B_A_range by (simp add: min_def max_def)
  show ?thesis
    unfolding compute_ssim_def
    by (simp add: d rgb2gray_A rgb2gray_B ne range_A s c Let_def)
qed

subsection \<open>Ranges of clipped values\<close>

lemma np_clip_range:
  assumes "lo \<le> hi"
  shows "np_clip v lo hi = NaN \<or> (\<exists>x. np_clip v lo hi = Fin x \<and> lo \<le> x \<and> x \<le> hi)"
  using assms by (cases v) (auto simp add: min_def max_def)

lemma np_clip_nan_iff: "np_clip v lo hi = NaN \<longleftrightarrow> v = NaN"
  by (cases v) simp_all

lemma compute_ssim_range:
  assumes "compute_ssim img1 img2 = Inr s"
  shows "s = NaN \<or> (\<exists>x. s = Fin x \<and> - 1 \<le> x \<and> x \<le> 1)"
proof -
  from assms obtain v where "s = np_clip v (- 1) 1"
    unfolding compute_ssim_def
    by (auto simp add: bind_exc_Inr_iff in_frame_Inr_iff Let_def split: if_splits)
  then show ?thesis
    using np_clip_range [of "- 1" 1 v] by simp
qed

subsection \<open>The instance on the example pairs\<close>

lemma example_phash_self:
  "compute_phash_similarity example_libs example_cfg p q = Inr 1"
  by (simp add: compute_phash_similarity_def example_libs_def example_cfg_def Let_def
      hamming_self)

lemma no_descriptors_phash_self:
  "compute_phash_similarity libs_no_descriptors example_cfg p q = Inr 1"
  by (simp add: compute_phash_similarity_def libs_no_descriptors_def example_libs_def
      example_cfg_def Let_def hamming_self)

lemma example_orb_ratio:
  "compute_orb_match_ratio example_libs example_cfg img1 img2 = Inr (1 / 2)"
proof -
  have g: "\<exists>g. cv2_cvtColor_RGB2GRAY example_libs (normalize_image_array img) = Inr g" for img
    by (cases img) (simp_all add: normalize_image_array_def example_libs_def)
  obtain g1 where g1: "cv2_cvtColor_RGB2GRAY example_libs (normalize_image_array img1) = Inr g1"
    using g by blast
  obtain g2 where g2: "cv2_cvtColor_RGB2GRAY example_libs (normalize_image_array img2) = Inr g2"
    using g by blast
  have o: "cv2_ORB_detectAndCompute example_libs n gr
           = Inr ([\<lparr>kp_x = 1, kp_y = 1\<rparr>, \<lparr>kp_x = 2, kp_y = 3\<rparr>],
                  Some [replicate 32 0, replicate 32 255])" for n gr
    by (simp add: example_libs_def)
  have m: "cv2_BFMatcher_HAMMING_match example_libs c d1 d2 = Inr example_matches" for c d1 d2
    by (simp add: example_libs_def)
  show ?thesis
    by (simp add: compute_orb_match_ratio_def Let_def g1 g2 o m example_matches_def)
qed

lemma no_descriptors_orb_ratio:
  "compute_orb_match_ratio libs_no_descriptors example_cfg img1 img2 = Inr 0"
proof -
  have g: "\<exists>g. cv2_cvtColor_RGB2GRAY libs_no_descriptors (normalize_image_array img) = Inr g" for img
    by (cases img) (simp_all add: normalize_image_array_def libs_no_descriptors_def example_libs_def)
  obtain g1 where g1: "cv2_cvtColor_RGB2GRAY libs_no_descriptors (normalize_image_array img1) = Inr g1"
    using g by blast
  obtain g2 where g2: "cv2_cvtColor_RGB2GRAY libs_no_descriptors (normalize_image_array img2) = Inr g2"
    using g by blast
  have o: "cv2_ORB_detectAndCompute libs_no_descriptors n gr = Inr ([], None)" for n gr
    by (simp add: libs_no_descriptors_def)
  show ?thesis
    by (simp add: compute_orb_match_ratio_def Let_def g1 g2 o)
qed

lemma example_convert: "Image_convert example_libs p m = Inr (p\<lparr>pil_format := None, pil_mode := m\<rparr>)"
  by (simp add: example_libs_def)

lemma example_resize:
  "Image_resize_LANCZOS example_libs p sz = Inr (p\<lparr>pil_width := fst sz, pil_height := snd sz\<rparr>)"
  by (simp add: example_libs_def)

lemma no_descriptors_convert:
  "Image_convert libs_no_descriptors p m = Inr (p\<lparr>pil_format := None, pil_mode := m\<rparr>)"
  by (simp add: libs_no_descriptors_def example_libs_def)

lemma no_descriptors_resize:
  "Image_resize_LANCZOS libs_no_descriptors p sz = Inr (p\<lparr>pil_width := fst sz, pil_height := snd sz\<rparr>)"
  by (simp add: libs_no_descriptors_def example_libs_def)

lemma example_combined_A_B:
  "\<exists>r. combined_similarity example_libs example_cfg pil_A pil_B (7, 7) = Inr r"
  by (simp add: combined_similarity_def pil_to_np_def example_convert example_resize pil_A_def
      pil_B_def compute_ssim_A_B example_phash_self example_orb_ratio Let_def)

lemma example_combined_B_A:
  "\<exists>r. combined_similarity example_libs example_cfg pil_B pil_A (7, 7) = Inr r"
  by (simp add: combined_similarity_def pil_to_np_def example_convert example_resize pil_A_def
      pil_B_def compute_ssim_B_A example_phash_self example_orb_ratio Let_def)

lemma example_combined_black:
  "combined_similarity libs_no_descriptors example_cfg pil_black pil_black (512, 512)
   = Inr \<lparr>score = NaN, breakdown = \<lparr>bd_ssim = NaN, bd_phash = Fin 1, bd_orb = Fin 0\<rparr>\<rparr>"
  by (simp add: combined_similarity_def pil_to_np_def no_descriptors_convert no_descriptors_resize
      pil_black_def compute_ssim_black no_descriptors_phash_self no_descriptors_orb_ratio Let_def
      weighted_sum_nan)

subsection \<open>Away from the zero range: an image compared with itself\<close>

lemma sum_list_square_deviation:
  fixes xs :: "real list"
  shows "sum_list (map (\<lambda>x. (x - m) * (x - m)) xs)
         = sum_list (map2 (*) xs xs) - 2 * m * sum_list xs + real (length xs) * (m * m)"
  by (induction xs) (simp_all add: algebra_simps)

lemma mean_square_ge_square_mean:
  fixes xs :: "real list"
  shows "(sum_list xs / real (length xs)) * (sum_list xs / real (length xs))
         \<le> sum_list (map2 (*) xs xs) / real (length xs)"
proof (cases "xs = []")
  case True
  then show ?thesis by simp
next
  case False
  let ?n = "real (length xs)" and ?s = "sum_list xs" and ?q = "sum_list (map2 (*) xs xs)"
  have n: "0 < ?n" using False by simp
  have "0 \<le> sum_list (map (\<lambda>x. (x - ?s / ?n) * (x - ?s / ?n)) xs)"
    by (intro sum_list_nonneg) auto
  also have "\<dots> = ?q - 2 * (?s / ?n) * ?s + ?n * ((?s / ?n) * (?s / ?n))"
    by (rule sum_list_square_deviation)
  also have "\<dots> = ?q - ?s * ?s / ?n"
    using n by (simp add: field_simps)
  finally have le: "?s * ?s / ?n \<le> ?q" by simp
  have A: "?s * ?s / ?n / ?n \<le> ?q / ?n"
    by (rule divide_right_mono [OF le]) (use n in simp)
  have B: "(?s / ?n) * (?s / ?n) = ?s * ?s / ?n / ?n" by simp
  show ?thesis unfolding B by (rule A)
qed

lemma np_divide_self: "x \<noteq> 0 \<Longrightarrow> np_divide x x = Fin 1"
  by (simp add: np_divide_def)

lemma ssim_window_self:
  assumes "R \<noteq> 0"
  shows "ssim_window R w w = Fin 1"
proof -
  let ?n = "real (length w)"
  let ?ux = "sum_list w / ?n" and ?uxx = "sum_list (map2 (*) w w) / ?n"
  let ?cov = "?n / (?n - 1)"
  let ?vx = "?cov * (?uxx - ?ux * ?ux)"
  let ?C1 = "(0.01 * R)\<^sup>2" and ?C2 = "(0.03 * R)\<^sup>2"
  have c1: "0 < ?C1" and c2: "0 < ?C2" using assms by simp_all
  have cov: "0 \<le> ?cov"
  proof (cases "length w \<le> 1")
    case True
    then have "length w = 0 \<or> length w = 1" by linarith
    then show ?thesis by auto
  next
    case False
    then have "1 < ?n" by simp
    then show ?thesis by simp
  qed
  have var: "0 \<le> ?uxx - ?ux * ?ux"
    using mean_square_ge_square_mean [of w] by simp
  have vx: "0 \<le> ?vx" using cov var by (rule mult_nonneg_nonneg)
  have b1: "0 < ?ux\<^sup>2 + ?ux\<^sup>2 + ?C1" using c1 by (simp add: add_nonneg_pos)
  have b2: "0 < ?vx + ?vx + ?C2" using vx c2 by (simp add: add_nonneg_pos)
  have d: "(?ux\<^sup>2 + ?ux\<^sup>2 + ?C1) * (?vx + ?vx + ?C2) \<noteq> 0"
    using b1 b2 by simp
  have a1: "2 * ?ux * ?ux + ?C1 = ?ux\<^sup>2 + ?ux\<^sup>2 + ?C1" by (simp add: power2_eq_square)
  have a2: "2 * ?vx + ?C2 = ?vx + ?vx + ?C2" by simp
  have "ssim_window R w w
        = np_divide ((?ux\<^sup>2 + ?ux\<^sup>2 + ?C1) * (?vx + ?vx + ?C2))
                    ((?ux\<^sup>2 + ?ux\<^sup>2 + ?C1) * (?vx + ?vx + ?C2))"
    unfolding ssim_window_def Let_def a1 a2 ..
  also have "\<dots> = Fin 1"
    using d by (rule np_divide_self)
  finally show ?thesis .
qed

lemma foldr_np_add_ones: "foldr np_add (replicate n (Fin 1)) (Fin 0) = Fin (real n)"
  by (induction n) (simp_all del: foldr_replicate)

lemma np_mean_f_ones: "0 < n \<Longrightarrow> np_mean_f (replicate n (Fin 1)) = Fin 1"
  by (simp add: np_mean_f_def foldr_np_add_ones del: foldr_replicate)

lemma length_windows2: "length (windows2 g) = (shape0 g - 6) * (shape1 g - 6)"
  by (simp add: windows2_def length_concat comp_def sum_list_triv)

lemma length_windows1: "length (windows1 xs) = length xs - 6"
  by (simp add: windows1_def)

lemma structural_similarity_self:
  assumes "R \<noteq> 0" and "\<not> list_ex (\<lambda>d. d < 7) (gray_shape g)"
  shows "structural_similarity g g R = Inr (Fin 1)"
proof -
  have n: "0 < length (gray_windows g)"
    using assms(2)
    by (cases g) (simp_all add: gray_windows_def gray_shape_def length_windows1 length_windows2)
  have "map2 (ssim_window R) (gray_windows g) (gray_windows g)
        = map (\<lambda>w. Fin 1) (gray_windows g)"
    by (simp add: map2_same ssim_window_self [OF assms(1)])
  also have "\<dots> = replicate (length (gray_windows g)) (Fin 1)"
    by (simp add: map_replicate_const)
  finally show ?thesis
    using assms(2) n by (simp add: structural_similarity_def np_mean_f_ones)
qed

lemma compute_ssim_self:
  assumes "last_axis img \<noteq> 4"
    and "rgb2gray img = Inr g"
    and "\<not> list_ex (\<lambda>d. d < 7) (gray_shape g)"
    and "Min (set (gray_values g)) < Max (set (gray_values g))"
  shows "compute_ssim img img = Inr (Fin 1)"
proof -
  have ne: "gray_values g \<noteq> []"
  proof
    assume "gray_values g = []"
    with assms(3) show False
      by (cases g) (auto simp add: gray_values_def gray_shape_def shape0_def shape1_def
          split: list.splits)
  qed
  have R: "Max (set (gray_values g)) - Min (set (gray_values g)) \<noteq> 0"
    using assms(4) by simp
  show ?thesis
    using assms(1,2) ne
    by (simp add: compute_ssim_def drop_alpha_at_def Let_def
        structural_similarity_self [OF R assms(3)])
qed

lemma combined_similarity_self_scores:
  assumes "combined_similarity L cfg p p np_size = Inr r"
    and "Image_convert L p ''RGB'' = Inr p'"
    and "pil_to_np L p' (Some np_size) = Inr img"
    and "last_axis img \<noteq> 4"
    and "rgb2gray img = Inr g"
    and "\<not> list_ex (\<lambda>d. d < 7) (gray_shape g)"
    and "Min (set (gray_values g)) < Max (set (gray_values g))"
  shows "bd_ssim (breakdown r) = Fin 1 \<and> bd_phash (breakdown r) = Fin 1"
proof -
  from combined_similarity_Inr [OF assms(1)] assms(2,3)
  obtain s ph where "compute_ssim img img = Inr s"
    and "compute_phash_similarity L cfg p' p' = Inr ph"
    and "bd_ssim (breakdown r) = np_clip s 0 1"
    and "bd_phash (breakdown r) = np_clip (Fin ph) 0 1"
    by auto
  moreover from this have "ph = 1" using compute_phash_similarity_self by blast
  moreover have "compute_ssim img img = Inr (Fin 1)"
    using assms(4-7) by (rule compute_ssim_self)
  ultimately show ?thesis by auto
qed

subsection \<open>Away from the zero range: the combined score is in range\<close>

lemma combined_similarity_in_range:
  assumes "combined_similarity L cfg p1 p2 np_size = Inr r"
    and "bd_ssim (breakdown r) \<noteq> NaN"
  shows "(\<exists>x. score r = Fin x \<and> 0 \<le> x \<and> x \<le> 1)
     \<and> (\<exists>x. bd_ssim (breakdown r) = Fin x \<and> 0 \<le> x \<and> x \<le> 1)
     \<and> (\<exists>x. bd_phash (breakdown r) = Fin x \<and> 0 \<le> x \<and> x \<le> 1)
     \<and> (\<exists>x. bd_orb (breakdown r) = Fin x \<and> 0 \<le> x \<and> x \<le> 1)"
proof -
  from combined_similarity_Inr [OF assms(1)]
  obtain img1 img2 s ph orb where s: "compute_ssim img1 img2 = Inr s"
    and sc: "score r = np_clip (weighted_sum cfg s ph orb) 0 1"
    and b1: "bd_ssim (breakdown r) = np_clip s 0 1"
    and b2: "bd_phash (breakdown r) = np_clip (Fin ph) 0 1"
    and b3: "bd_orb (breakdown r) = np_clip (Fin orb) 0 1"
    by blast
  from assms(2) b1 have "s \<noteq> NaN" by (simp add: np_clip_nan_iff)
  with compute_ssim_range [OF s] obtain x where x: "s = Fin x" by blast
  have w: "weighted_sum cfg (Fin x) ph orb
           = Fin (SSIM_WEIGHT cfg * x + PHASH_WEIGHT cfg * ph + ORB_WEIGHT cfg * orb)"
    by (simp add: weighted_sum_def)
  show ?thesis
    unfolding sc b1 b2 b3 x w by simp
qed

subsection \<open>When rounding changes a value\<close>

lemma round_half_even_of_int: "round_half_even (of_int k) = k"
  by (simp add: round_half_even_def Let_def)

lemma py_round_eq_iff: "py_round x n = x \<longleftrightarrow> (\<exists>k. x * 10 ^ n = of_int k)"
proof
  assume "py_round x n = x"
  then have "x * 10 ^ n = of_int (round_half_even (x * 10 ^ n))"
    by (simp add: py_round_def field_simps)
  then show "\<exists>k. x * 10 ^ n = of_int k" by blast
next
  assume "\<exists>k. x * 10 ^ n = of_int k"
  then obtain k where k: "x * 10 ^ n = of_int k" by blast
  then have "py_round x n = of_int k / 10 ^ n"
    by (simp only: py_round_def round_half_even_of_int)
  also have "\<dots> = x"
    using k by (simp add: field_simps)
  finally show "py_round x n = x" .
qed

lemma edge_density_exact_iff:
  assumes "cv2_cvtColor_RGB2GRAY L img_np = Inr gray"
    and "cv2_Canny L gray 100 200 = Inr edges"
    and "cv2_Sobel_64F L gray 1 0 3 = Inr sobelx"
    and "cv2_Sobel_64F L gray 0 1 3 = Inr sobely"
    and "extract_edge_features L img_np = Inr r"
  shows "edge_density_percentage r = real (count_edge_pixels edges) / real (array_size edges) * 100
     \<longleftrightarrow> (\<exists>k. real (count_edge_pixels edges) / real (array_size edges) * 100 * 10 ^ 2 = of_int k)"
proof -
  have "edge_density_percentage r
        = py_round (real (count_edge_pixels edges) / real (array_size edges) * 100) 2"
    using assms by (auto simp add: extract_edge_features_def Let_def)
  then show ?thesis
    by (simp only: py_round_eq_iff)
qed

section \<open>The fingerprint does not encode component boundaries\<close>

text \<open>
  Claim C10. \<^verbatim>\<open>create_design_fingerprint\<close> joins its arguments with the empty separator
  before hashing. Two tuples of hash strings with the same concatenation therefore
  give the same fingerprint for every digest function, and there are two different
  six-element tuples for which the very same bytes are hashed: the equality is not a
  collision of the digest.
\<close>

theorem fingerprint_boundaries_not_encoded:
  "(concat hs1 = concat hs2 \<longrightarrow>
      create_design_fingerprint sha hs1 = create_design_fingerprint sha hs2)
   \<and> (\<exists>h1 h2. h1 \<noteq> h2 \<and> length h1 = 6 \<and> length h2 = 6
        \<and> str_encode (concat h1) = str_encode (concat h2)
        \<and> (\<forall>sha'. create_design_fingerprint sha' h1 = create_design_fingerprint sha' h2))"
proof (intro conjI impI)
  assume "concat hs1 = concat hs2"
  then show "create_design_fingerprint sha hs1 = create_design_fingerprint sha hs2"
    by (simp add: create_design_fingerprint_def)
next
  let ?h1 = "[''ab'', ''c'', ''d'', ''e'', ''f'', ''0'']"
  let ?h2 = "[''a'', ''bc'', ''d'', ''e'', ''f'', ''0'']"
  have "?h1 \<noteq> ?h2" by simp
  moreover have "concat ?h1 = concat ?h2" by simp
  ultimately show "\<exists>h1 h2. h1 \<noteq> h2 \<and> length h1 = 6 \<and> length h2 = 6
        \<and> str_encode (concat h1) = str_encode (concat h2)
        \<and> (\<forall>sha'. create_design_fingerprint sha' h1 = create_design_fingerprint sha' h2)"
    unfolding create_design_fingerprint_def Let_def
    by (intro exI [of _ ?h1] exI [of _ ?h2]) simp
qed

theorem fingerprint_boundaries_not_encoded_witness:
  "concat [''ab'', ''c'', ''d'', ''e'', ''f'', ''0''] = concat [''a'', ''bc'', ''d'', ''e'', ''f'', ''0'']
   \<and> [''ab'', ''c'', ''d'', ''e'', ''f'', ''0''] \<noteq> [''a'', ''bc'', ''d'', ''e'', ''f'', ''0'']
   \<and> (\<forall>sha. create_design_fingerprint sha [''ab'', ''c'', ''d'', ''e'', ''f'', ''0'']
            = create_design_fingerprint sha [''a'', ''bc'', ''d'', ''e'', ''f'', ''0''])"
  using fingerprint_boundaries_not_encoded
    [of "[''ab'', ''c'', ''d'', ''e'', ''f'', ''0'']" "[''a'', ''bc'', ''d'', ''e'', ''f'', ''0'']"]
  by simp


section \<open>The design fingerprint is the digest of the six hashes in order\<close>

text \<open>
  Claim C3. Whenever the extraction returns, the \<^verbatim>\<open>design_fingerprint\<close> stored in the
  metadata is the SHA-256 hex digest of the concatenation of the six stored hash strings
  in the order perceptual, average, difference, wavelet, color, sha256, and the
  \<^verbatim>\<open>design_id\<close> of a successful scan is that fingerprint. The fingerprint is thus a
  function of the six hash strings alone.
\<close>

theorem design_id_is_digest_of_ordered_hashes:
  "(extract_image_metadata L cfg utcnow pil_img = Inr m \<longrightarrow>
      design_fingerprint (md_hashes m) =
        sha256_hexdigest L (str_encode
          (perceptual_hash (md_hashes m) @ average_hash (md_hashes m) @
           difference_hash (md_hashes m) @ wavelet_hash (md_hashes m) @
           color_hash (md_hashes m) @ sha256 (md_hashes m))))
   \<and> (scan_design_for_blockchain L cfg stream_id t0 utcnow t2 image_bytes = Success s \<longrightarrow>
      ok_design_id s = design_fingerprint (md_hashes (ok_metadata s)) \<and>
      ok_design_id s =
        sha256_hexdigest L (str_encode
          (perceptual_hash (md_hashes (ok_metadata s)) @ average_hash (md_hashes (ok_metadata s)) @
           difference_hash (md_hashes (ok_metadata s)) @ wavelet_hash (md_hashes (ok_metadata s)) @
           color_hash (md_hashes (ok_metadata s)) @ sha256 (md_hashes (ok_metadata s)))))"
proof (intro conjI impI)
  assume "extract_image_metadata L cfg utcnow pil_img = Inr m"
  then show "design_fingerprint (md_hashes m) =
        sha256_hexdigest L (str_encode
          (perceptual_hash (md_hashes m) @ average_hash (md_hashes m) @
           difference_hash (md_hashes m) @ wavelet_hash (md_hashes m) @
           color_hash (md_hashes m) @ sha256 (md_hashes m)))"
    by (rule extract_Inr_hashes)
next
  assume s: "scan_design_for_blockchain L cfg stream_id t0 utcnow t2 image_bytes = Success s"
  then obtain pil0 m0 where m0: "extract_image_metadata L cfg utcnow pil0 = Inr m0"
    and id: "ok_design_id s = design_fingerprint (md_hashes m0)" and md: "ok_metadata s = m0"
    by (auto simp add: scan_Success_iff)
  show "ok_design_id s = design_fingerprint (md_hashes (ok_metadata s))"
    by (simp add: id md)
  show "ok_design_id s =
        sha256_hexdigest L (str_encode
          (perceptual_hash (md_hashes (ok_metadata s)) @ average_hash (md_hashes (ok_metadata s)) @
           difference_hash (md_hashes (ok_metadata s)) @ wavelet_hash (md_hashes (ok_metadata s)) @
           color_hash (md_hashes (ok_metadata s)) @ sha256 (md_hashes (ok_metadata s))))"
    using extract_Inr_hashes [OF m0] by (simp add: id md)
qed

theorem design_id_is_digest_of_ordered_hashes_witness:
  "\<exists>m s. extract_image_metadata example_libs example_cfg clock_2 pil_A = Inr m
     \<and> scan_design_for_blockchain example_libs example_cfg example_stream clock_1 clock_2 clock_3 example_bytes
         = Success s
     \<and> design_fingerprint (md_hashes m) =
        sha256_hexdigest example_libs (str_encode
          (perceptual_hash (md_hashes m) @ average_hash (md_hashes m) @
           difference_hash (md_hashes m) @ wavelet_hash (md_hashes m) @
           color_hash (md_hashes m) @ sha256 (md_hashes m)))
     \<and> ok_design_id s = design_fingerprint (md_hashes (ok_metadata s))"
proof -
  obtain m where m: "extract_image_metadata example_libs example_cfg clock_2 pil_A = Inr m"
    using example_extract by blast
  obtain s where s: "scan_design_for_blockchain example_libs example_cfg example_stream clock_1 clock_2 clock_3
      example_bytes = Success s"
    using example_scan by blast
  show ?thesis
    using design_id_is_digest_of_ordered_hashes
      [of example_libs example_cfg clock_2 pil_A m example_stream clock_1 clock_3 example_bytes s] m s
    by blast
qed

section \<open>Extraction is reproducible except for the time stamp\<close>

text \<open>
  Claim C1, as stated, asks that two calls on the same bytes give the same metadata in
  every field. The metadata holds \<^verbatim>\<open>scan_timestamp\<close>, read from \<^verbatim>\<open>datetime.utcnow()\<close>
  during the call (line 79): two calls made at different moments differ in it. The
  counterexample runs the extraction on the same image at two clock readings.
\<close>

theorem metadata_differs_between_calls_counterexample:
  "extract_image_metadata example_libs example_cfg clock_1 pil_A
   \<noteq> extract_image_metadata example_libs example_cfg clock_2 pil_A"
proof
  assume eq: "extract_image_metadata example_libs example_cfg clock_1 pil_A
              = extract_image_metadata example_libs example_cfg clock_2 pil_A"
  obtain m where m: "extract_image_metadata example_libs example_cfg clock_1 pil_A = Inr m"
    using example_extract by blast
  have "scan_timestamp m = isoformat clock_1 @ ''Z''"
    using extract_Inr_timestamp [OF m] .
  moreover have "scan_timestamp m = isoformat clock_2 @ ''Z''"
    using extract_Inr_timestamp [of example_libs example_cfg clock_2 pil_A m] m eq by simp
  ultimately show False
    by (simp add: clock_1_def clock_2_def)
qed

text \<open>
  Claim C1, amended. Two calls on the same input that both return agree on everything
  but the time stamp: the two metadata records returned by \<^verbatim>\<open>extract_image_metadata\<close>
  for the same image are equal in every field other than \<^verbatim>\<open>scan_timestamp\<close>, and
  their fingerprints are equal; two successful results of
  \<^verbatim>\<open>scan_design_for_blockchain\<close> for the same bytes, whose two streams decode to the
  same image, have the same \<^verbatim>\<open>design_id\<close>, the same \<^verbatim>\<open>message\<close> and metadata equal
  in every field other than \<^verbatim>\<open>scan_timestamp\<close>. Nothing is stated about
  \<^verbatim>\<open>scan_duration_seconds\<close>, which is elapsed time, nor about two failures, whose
  message may name the stream.
\<close>

theorem extraction_deterministic_up_to_clock:
  "(extract_image_metadata L cfg t1 pil_img = Inr m
      \<and> extract_image_metadata L cfg t1' pil_img = Inr m'
    \<longrightarrow> without_timestamp m = without_timestamp m'
        \<and> design_fingerprint (md_hashes m) = design_fingerprint (md_hashes m'))
   \<and> (scan_design_for_blockchain L cfg stream_id t0 t1 t2 image_bytes = Success s
      \<and> scan_design_for_blockchain L cfg stream_id' t0' t1' t2' image_bytes = Success s'
      \<and> Image_open L \<lparr>object_id = stream_id, getvalue = image_bytes\<rparr> = Inr pil0
      \<and> Image_open L \<lparr>object_id = stream_id', getvalue = image_bytes\<rparr> = Inr pil0
    \<longrightarrow> ok_design_id s = ok_design_id s'
        \<and> without_timestamp (ok_metadata s) = without_timestamp (ok_metadata s')
        \<and> ok_message s = ok_message s')"
proof -
  have two: "without_timestamp a = without_timestamp b
      \<and> design_fingerprint (md_hashes a) = design_fingerprint (md_hashes b)"
    if a: "extract_image_metadata L cfg t1 p = Inr a"
      and b: "extract_image_metadata L cfg t1' p = Inr b" for p a b
  proof
    show "without_timestamp a = without_timestamp b"
      using extract_clock [of L cfg t1 p t1'] a b by simp
    show "design_fingerprint (md_hashes a) = design_fingerprint (md_hashes b)"
      using extract_clock_fingerprint [of L cfg t1 p t1'] a b by simp
  qed
  show ?thesis
  proof (rule conjI; rule impI)
    assume "extract_image_metadata L cfg t1 pil_img = Inr m
      \<and> extract_image_metadata L cfg t1' pil_img = Inr m'"
    then show "without_timestamp m = without_timestamp m'
        \<and> design_fingerprint (md_hashes m) = design_fingerprint (md_hashes m')"
      using two by blast
  next
    assume h: "scan_design_for_blockchain L cfg stream_id t0 t1 t2 image_bytes = Success s
      \<and> scan_design_for_blockchain L cfg stream_id' t0' t1' t2' image_bytes = Success s'
      \<and> Image_open L \<lparr>object_id = stream_id, getvalue = image_bytes\<rparr> = Inr pil0
      \<and> Image_open L \<lparr>object_id = stream_id', getvalue = image_bytes\<rparr> = Inr pil0"
    from h obtain a where a: "extract_image_metadata L cfg t1 pil0 = Inr a"
      and sa: "ok_design_id s = design_fingerprint (md_hashes a)" "ok_metadata s = a"
        "ok_message s = ''Design scanned successfully. Ready for blockchain integration.''"
      by (auto simp add: scan_Success_iff)
    from h obtain b where b: "extract_image_metadata L cfg t1' pil0 = Inr b"
      and sb: "ok_design_id s' = design_fingerprint (md_hashes b)" "ok_metadata s' = b"
        "ok_message s' = ''Design scanned successfully. Ready for blockchain integration.''"
      by (auto simp add: scan_Success_iff)
    from two [OF a b] sa sb
    show "ok_design_id s = ok_design_id s'
        \<and> without_timestamp (ok_metadata s) = without_timestamp (ok_metadata s')
        \<and> ok_message s = ok_message s'"
      by simp
  qed
qed

theorem extraction_deterministic_up_to_clock_witness:
  "\<exists>m m' s s'.
       extract_image_metadata example_libs example_cfg clock_2 pil_A = Inr m
     \<and> extract_image_metadata example_libs example_cfg clock_3 pil_A = Inr m'
     \<and> scan_design_for_blockchain example_libs example_cfg example_stream clock_1 clock_2 clock_3
         example_bytes = Success s
     \<and> scan_design_for_blockchain example_libs example_cfg other_stream clock_2 clock_3 clock_3
         example_bytes = Success s'
     \<and> Image_open example_libs \<lparr>object_id = example_stream, getvalue = example_bytes\<rparr>
         = Inr pil_A
     \<and> Image_open example_libs \<lparr>object_id = other_stream, getvalue = example_bytes\<rparr>
         = Inr pil_A
     \<and> example_stream \<noteq> other_stream
     \<and> m \<noteq> m'
     \<and> without_timestamp m = without_timestamp m'
     \<and> design_fingerprint (md_hashes m) = design_fingerprint (md_hashes m')
     \<and> ok_design_id s = ok_design_id s'
     \<and> without_timestamp (ok_metadata s) = without_timestamp (ok_metadata s')
     \<and> ok_message s = ok_message s'"
proof -
  obtain m where m: "extract_image_metadata example_libs example_cfg clock_2 pil_A = Inr m"
    using example_extract by blast
  obtain m' where m': "extract_image_metadata example_libs example_cfg clock_3 pil_A = Inr m'"
    using example_extract by blast
  obtain s where s: "scan_design_for_blockchain example_libs example_cfg example_stream
      clock_1 clock_2 clock_3 example_bytes = Success s"
    using example_scan by blast
  obtain s' where s': "scan_design_for_blockchain example_libs example_cfg other_stream
      clock_2 clock_3 clock_3 example_bytes = Success s'"
    using example_scan by blast
  have o: "Image_open example_libs \<lparr>object_id = example_stream, getvalue = example_bytes\<rparr>
         = Inr pil_A"
    "Image_open example_libs \<lparr>object_id = other_stream, getvalue = example_bytes\<rparr>
         = Inr pil_A"
    by (simp_all add: example_libs_pil example_bytes_def)
  have d: "example_stream \<noteq> other_stream"
    by (simp add: example_stream_def other_stream_def)
  have "scan_timestamp m = isoformat clock_2 @ ''Z''"
    using extract_Inr_timestamp [OF m] .
  moreover have "scan_timestamp m' = isoformat clock_3 @ ''Z''"
    using extract_Inr_timestamp [OF m'] .
  ultimately have n: "m \<noteq> m'"
    by (auto simp add: clock_2_def clock_3_def)
  show ?thesis
    using extraction_deterministic_up_to_clock
      [of example_libs example_cfg clock_2 pil_A m clock_3 m' example_stream clock_1 clock_3
          example_bytes s other_stream clock_2 clock_3 s' pil_A]
      m m' s s' o d n
    by blast
qed

section \<open>A failed scan returns the exception, not a stage name, and never metadata\<close>

text \<open>
  Claim C7, as stated, asks that the failure names the failing stage. The dictionary
  built at lines 399-414 has no such entry: it carries the exception's class name and
  message, the printed traceback, the elapsed time and a fixed message. In the
  counterexample the same exception is raised once inside the colour stage and once
  inside the texture stage: the two failures differ in the traceback and in nothing else.
\<close>

theorem failure_names_no_stage_counterexample:
  "scan_design_for_blockchain libs_color_fails example_cfg example_stream clock_1 clock_2 clock_3 example_bytes
     = Failure (failure_at [(''scan_design_for_blockchain'', 374), (''extract_image_metadata'', 49),
                            (''extract_color_features'', 161)])
   \<and> scan_design_for_blockchain libs_texture_fails example_cfg example_stream clock_1 clock_2 clock_3 example_bytes
     = Failure (failure_at [(''scan_design_for_blockchain'', 374), (''extract_image_metadata'', 53),
                            (''extract_texture_features'', 205)])
   \<and> (failure_at [(''scan_design_for_blockchain'', 374), (''extract_image_metadata'', 49),
                   (''extract_color_features'', 161)]) \<lparr>traceback := []\<rparr>
     = (failure_at [(''scan_design_for_blockchain'', 374), (''extract_image_metadata'', 53),
                    (''extract_texture_features'', 205)]) \<lparr>traceback := []\<rparr>"
  by (simp add: scan_color_fails scan_texture_fails failure_at_def)

text \<open>
  Claim C7, amended. A scan returns either a failure or a success, never a mixture.
  A failure is returned exactly when loading or extraction raised; it carries
  \<^verbatim>\<open>success = False\<close>, the class name and message of the exception, its traceback (the
  only place where the failing call appears), the elapsed time rounded to two decimals
  and the message \<^verbatim>\<open>Scan failed - see error details\<close>; it has no metadata and no design
  id. A success is returned only if every stage returned, and each part of its metadata
  is the value that the stage returned.
\<close>

theorem scan_is_all_or_nothing:
  "(scan_design_for_blockchain L cfg stream_id t0 t1 t2 b = Failure f \<longrightarrow>
      \<not> success (scan_design_for_blockchain L cfg stream_id t0 t1 t2 b) \<and>
      (\<exists>e. bind_exc (in_frame ''scan_design_for_blockchain'' 370 (load_image_bytes L stream_id b))
              (\<lambda>p. in_frame ''scan_design_for_blockchain'' 374 (extract_image_metadata L cfg t1 p))
            = Inl e
          \<and> error_type f = exc_type e
          \<and> error_message f = exc_message e
          \<and> traceback f = exc_frames e
          \<and> err_scan_duration_seconds f = py_round (epoch_seconds t2 - epoch_seconds t0) 2
          \<and> err_message f = ''Scan failed - see error details''))
   \<and> (scan_design_for_blockchain L cfg stream_id t0 t1 t2 b = Success s \<longrightarrow>
      success (scan_design_for_blockchain L cfg stream_id t0 t1 t2 b) \<and>
      (\<exists>pil0 pil img h1 h2 h3 h4 h5.
          Image_open L \<lparr>object_id = stream_id, getvalue = b\<rparr> = Inr pil0
        \<and> Image_convert L pil0 ''RGB'' = Inr pil
        \<and> pil_to_np L pil (Some (512, 512)) = Inr img
        \<and> imagehash_phash L pil (PHASH_SIZE cfg) = Inr h1
        \<and> imagehash_average_hash L pil = Inr h2
        \<and> imagehash_dhash L pil = Inr h3
        \<and> imagehash_whash L pil = Inr h4
        \<and> imagehash_colorhash L pil = Inr h5
        \<and> perceptual_hash (md_hashes (ok_metadata s)) = imagehash_str L h1
        \<and> average_hash (md_hashes (ok_metadata s)) = imagehash_str L h2
        \<and> difference_hash (md_hashes (ok_metadata s)) = imagehash_str L h3
        \<and> wavelet_hash (md_hashes (ok_metadata s)) = imagehash_str L h4
        \<and> color_hash (md_hashes (ok_metadata s)) = imagehash_str L h5
        \<and> sha256 (md_hashes (ok_metadata s)) = sha256_hexdigest L (tobytes img)
        \<and> extract_color_features L img = Inr (md_color_analysis (ok_metadata s))
        \<and> extract_texture_features L img = Inr (md_texture_features (ok_metadata s))
        \<and> extract_orb_features L cfg img = Inr (md_orb_features (ok_metadata s))
        \<and> extract_pixel_statistics L img = Inr (md_pixel_statistics (ok_metadata s))
        \<and> extract_edge_features L img = Inr (md_edge_features (ok_metadata s))
        \<and> extract_frequency_features L img = Inr (md_frequency_features (ok_metadata s))))"
proof (intro conjI impI)
  assume f: "scan_design_for_blockchain L cfg stream_id t0 t1 t2 b = Failure f"
  then show "\<not> success (scan_design_for_blockchain L cfg stream_id t0 t1 t2 b)"
    by (simp add: success_def)
  from f show "\<exists>e. bind_exc (in_frame ''scan_design_for_blockchain'' 370 (load_image_bytes L stream_id b))
              (\<lambda>p. in_frame ''scan_design_for_blockchain'' 374 (extract_image_metadata L cfg t1 p))
            = Inl e
          \<and> error_type f = exc_type e
          \<and> error_message f = exc_message e
          \<and> traceback f = exc_frames e
          \<and> err_scan_duration_seconds f = py_round (epoch_seconds t2 - epoch_seconds t0) 2
          \<and> err_message f = ''Scan failed - see error details''"
    by (auto simp add: scan_Failure_iff)
next
  assume s: "scan_design_for_blockchain L cfg stream_id t0 t1 t2 b = Success s"
  then show "success (scan_design_for_blockchain L cfg stream_id t0 t1 t2 b)"
    by (simp add: success_def)
  from s obtain pil0 m where o: "Image_open L \<lparr>object_id = stream_id, getvalue = b\<rparr> = Inr pil0"
    and m: "extract_image_metadata L cfg t1 pil0 = Inr m" and md: "ok_metadata s = m"
    by (auto simp add: scan_Success_iff)
  from extract_Inr_stages [OF m] o md
  show "\<exists>pil0 pil img h1 h2 h3 h4 h5.
          Image_open L \<lparr>object_id = stream_id, getvalue = b\<rparr> = Inr pil0
        \<and> Image_convert L pil0 ''RGB'' = Inr pil
        \<and> pil_to_np L pil (Some (512, 512)) = Inr img
        \<and> imagehash_phash L pil (PHASH_SIZE cfg) = Inr h1
        \<and> imagehash_average_hash L pil = Inr h2
        \<and> imagehash_dhash L pil = Inr h3
        \<and> imagehash_whash L pil = Inr h4
        \<and> imagehash_colorhash L pil = Inr h5
        \<and> perceptual_hash (md_hashes (ok_metadata s)) = imagehash_str L h1
        \<and> average_hash (md_hashes (ok_metadata s)) = imagehash_str L h2
        \<and> difference_hash (md_hashes (ok_metadata s)) = imagehash_str L h3
        \<and> wavelet_hash (md_hashes (ok_metadata s)) = imagehash_str L h4
        \<and> color_hash (md_hashes (ok_metadata s)) = imagehash_str L h5
        \<and> sha256 (md_hashes (ok_metadata s)) = sha256_hexdigest L (tobytes img)
        \<and> extract_color_features L img = Inr (md_color_analysis (ok_metadata s))
        \<and> extract_texture_features L img = Inr (md_texture_features (ok_metadata s))
        \<and> extract_orb_features L cfg img = Inr (md_orb_features (ok_metadata s))
        \<and> extract_pixel_statistics L img = Inr (md_pixel_statistics (ok_metadata s))
        \<and> extract_edge_features L img = Inr (md_edge_features (ok_metadata s))
        \<and> extract_frequency_features L img = Inr (md_frequency_features (ok_metadata s))"
    by blast
qed

theorem scan_is_all_or_nothing_witness:
  "scan_design_for_blockchain libs_color_fails example_cfg example_stream clock_1 clock_2 clock_3 example_bytes
     = Failure (failure_at [(''scan_design_for_blockchain'', 374), (''extract_image_metadata'', 49),
                            (''extract_color_features'', 161)])
   \<and> \<not> success (scan_design_for_blockchain libs_color_fails example_cfg example_stream clock_1 clock_2 clock_3
                  example_bytes)
   \<and> (\<exists>s. scan_design_for_blockchain example_libs example_cfg example_stream clock_1 clock_2 clock_3 example_bytes
            = Success s
        \<and> success (scan_design_for_blockchain example_libs example_cfg example_stream clock_1 clock_2 clock_3
                     example_bytes)
        \<and> (\<exists>img. extract_edge_features example_libs img = Inr (md_edge_features (ok_metadata s))))"
proof -
  obtain s where s: "scan_design_for_blockchain example_libs example_cfg example_stream clock_1 clock_2 clock_3
      example_bytes = Success s"
    using example_scan by blast
  show ?thesis
    using scan_is_all_or_nothing
      [of libs_color_fails example_cfg example_stream clock_1 clock_2 clock_3 example_bytes
          "failure_at [(''scan_design_for_blockchain'', 374), (''extract_image_metadata'', 49),
                       (''extract_color_features'', 161)]"]
      scan_is_all_or_nothing
      [of example_libs example_cfg example_stream clock_1 clock_2 clock_3 example_bytes _ s]
      scan_color_fails s
    by blast
qed


section \<open>The key-point match ratio\<close>

text \<open>
  Claim C6. After both images have been converted to gray and their key points
  detected: if either image has no descriptors the ratio is 0; otherwise the
  descriptors are matched by the brute-force Hamming matcher with cross-check, and the
  ratio is 0 for an empty match list and otherwise the number of matches with distance
  below 60 divided by the number of matches, clipped to \<open>[0, 1]\<close> (where it already
  lies).
\<close>

theorem orb_match_ratio_cases:
  assumes "cv2_cvtColor_RGB2GRAY L (normalize_image_array img1) = Inr gray1"
    and "cv2_cvtColor_RGB2GRAY L (normalize_image_array img2) = Inr gray2"
    and "cv2_ORB_detectAndCompute L (ORB_MAX_FEATURES cfg) gray1 = Inr (kp1, des1)"
    and "cv2_ORB_detectAndCompute L (ORB_MAX_FEATURES cfg) gray2 = Inr (kp2, des2)"
  shows "(des1 = None \<or> des2 = None \<longrightarrow> compute_orb_match_ratio L cfg img1 img2 = Inr 0)
    \<and> (\<forall>d1 d2. des1 = Some d1 \<and> des2 = Some d2
          \<and> cv2_BFMatcher_HAMMING_match L True d1 d2 = Inr []
          \<longrightarrow> compute_orb_match_ratio L cfg img1 img2 = Inr 0)
    \<and> (\<forall>d1 d2 matches. des1 = Some d1 \<and> des2 = Some d2
          \<and> cv2_BFMatcher_HAMMING_match L True d1 d2 = Inr matches \<and> matches \<noteq> []
          \<longrightarrow> compute_orb_match_ratio L cfg img1 img2
                = Inr (min (max (real (length (filter (\<lambda>m. distance m < 60) matches))
                                 / real (length matches)) 0) 1)
              \<and> compute_orb_match_ratio L cfg img1 img2
                = Inr (real (length (filter (\<lambda>m. distance m < 60) matches))
                       / real (length matches))
              \<and> 0 \<le> real (length (filter (\<lambda>m. distance m < 60) matches)) / real (length matches)
              \<and> real (length (filter (\<lambda>m. distance m < 60) matches)) / real (length matches) \<le> 1)"
proof (intro conjI allI impI)
  assume "des1 = None \<or> des2 = None"
  then show "compute_orb_match_ratio L cfg img1 img2 = Inr 0"
    using assms by (auto simp add: compute_orb_match_ratio_def Let_def split: option.splits)
next
  fix d1 d2
  assume "des1 = Some d1 \<and> des2 = Some d2 \<and> cv2_BFMatcher_HAMMING_match L True d1 d2 = Inr []"
  then show "compute_orb_match_ratio L cfg img1 img2 = Inr 0"
    using assms by (simp add: compute_orb_match_ratio_def Let_def)
next
  fix d1 d2 matches
  assume h: "des1 = Some d1 \<and> des2 = Some d2
          \<and> cv2_BFMatcher_HAMMING_match L True d1 d2 = Inr matches \<and> matches \<noteq> []"
  let ?good = "real (length (filter (\<lambda>m. distance m < 60) matches))"
  have le: "?good \<le> real (length matches)" by simp
  have pos: "0 < real (length matches)" using h by simp
  show lo: "0 \<le> ?good / real (length matches)" by simp
  show hi: "?good / real (length matches) \<le> 1" using le pos by (simp add: divide_le_eq)
  have mx: "max (length matches) (Suc 0) = length matches" "max (length matches) 1 = length matches"
    using h by (cases matches; simp)+
  have mm: "min (max (?good / real (length matches)) 0) 1 = ?good / real (length matches)"
    using lo hi by (rule clip_unit_id)
  show r: "compute_orb_match_ratio L cfg img1 img2 = Inr (?good / real (length matches))"
    using assms h hi
    by (simp add: compute_orb_match_ratio_def Let_def length_filter_sort_key mx min_absorb1)
  show "compute_orb_match_ratio L cfg img1 img2
        = Inr (min (max (?good / real (length matches)) 0) 1)"
    by (simp only: r mm)
qed

theorem orb_match_ratio_cases_witness:
  "compute_orb_match_ratio libs_no_descriptors example_cfg (Arr3 img_A) (Arr3 img_B) = Inr 0
   \<and> compute_orb_match_ratio libs_no_matches example_cfg (Arr3 img_A) (Arr3 img_B) = Inr 0
   \<and> compute_orb_match_ratio example_libs example_cfg (Arr3 img_A) (Arr3 img_B) = Inr (1 / 2)"
proof -
  let ?g1 = "map (map opencv_gray) img_A" and ?g2 = "map (map opencv_gray) img_B"
  let ?kp = "[\<lparr>kp_x = 1, kp_y = 1\<rparr>, \<lparr>kp_x = 2, kp_y = 3\<rparr>]"
  let ?d = "[replicate 32 0, replicate 32 255] :: uint8 list list"
  have n: "normalize_image_array (Arr3 img_A) = Arr3 img_A"
    "normalize_image_array (Arr3 img_B) = Arr3 img_B"
    by (simp_all add: normalize_image_array_def shape2_def img_A_def img_B_def numeral_eq_Suc)
  have a: "compute_orb_match_ratio libs_no_descriptors example_cfg (Arr3 img_A) (Arr3 img_B) = Inr 0"
    using orb_match_ratio_cases [of libs_no_descriptors "Arr3 img_A" ?g1 "Arr3 img_B" ?g2
        example_cfg "[]" None "[]" None]
    by (simp add: n libs_no_descriptors_def example_libs_def)
  have b: "compute_orb_match_ratio libs_no_matches example_cfg (Arr3 img_A) (Arr3 img_B) = Inr 0"
    using orb_match_ratio_cases [of libs_no_matches "Arr3 img_A" ?g1 "Arr3 img_B" ?g2
        example_cfg ?kp "Some ?d" ?kp "Some ?d"]
    by (simp add: n libs_no_matches_def example_libs_def)
  have c: "compute_orb_match_ratio example_libs example_cfg (Arr3 img_A) (Arr3 img_B) = Inr (1 / 2)"
    using orb_match_ratio_cases [of example_libs "Arr3 img_A" ?g1 "Arr3 img_B" ?g2
        example_cfg ?kp "Some ?d" ?kp "Some ?d"]
    by (simp add: n example_libs_def example_matches_def)
  from a b c show ?thesis by simp
qed


section \<open>Edge features\<close>

text \<open>
  Claim C9, as stated, gives \<^verbatim>\<open>edge_density_percentage\<close> as the fraction of edge
  pixels times 100 and \<^verbatim>\<open>edge_strength\<close> as the mean gradient magnitude. The code
  rounds both to two decimals (lines 303 and 309) and compares the rounded density
  with 5.0. In the counterexample one pixel of 49 is an edge pixel: the fraction times
  100 is \<open>100 / 49\<close> and the reported percentage is \<open>2.04\<close>.
\<close>

theorem edge_density_is_rounded_counterexample:
  "cv2_cvtColor_RGB2GRAY example_libs (Arr3 img_A) = Inr gray_A
   \<and> cv2_Canny example_libs gray_A 100 200 = Inr gray_A
   \<and> real (count_edge_pixels gray_A) / real (array_size gray_A) * 100 = 100 / 49
   \<and> extract_edge_features example_libs (Arr3 img_A)
       = Inr \<lparr>edge_density_percentage = 204 / 100, edge_strength = 0, has_strong_edges = False\<rparr>
   \<and> (204 / 100 :: real) \<noteq> 100 / 49"
  by (simp add: example_gray_A example_canny_A count_edge_pixels_A array_size_A example_edge_A)

text \<open>
  Claim C9, amended. With the edge map of the Canny detector at thresholds 100 and 200
  (non-empty, as it has the size of the image), \<^verbatim>\<open>edge_density_percentage\<close> is the
  fraction of non-zero pixels times 100, rounded to two decimals, and lies in
  \<open>[0, 100]\<close>; \<^verbatim>\<open>edge_strength\<close> is the mean of \<open>sqrt (gx\<^sup>2 + gy\<^sup>2)\<close> over the two Sobel
  gradients, rounded to two decimals; \<^verbatim>\<open>has_strong_edges\<close> is
  \<^verbatim>\<open>edge_density_percentage > 5.0\<close>, on the rounded value.
\<close>

theorem edge_features_rounded:
  assumes "cv2_cvtColor_RGB2GRAY L img_np = Inr gray"
    and "cv2_Canny L gray 100 200 = Inr edges"
    and "array_size edges \<noteq> 0"
    and "cv2_Sobel_64F L gray 1 0 3 = Inr sobelx"
    and "cv2_Sobel_64F L gray 0 1 3 = Inr sobely"
  shows "\<exists>r. extract_edge_features L img_np = Inr r
     \<and> edge_density_percentage r
         = py_round (real (count_edge_pixels edges) / real (array_size edges) * 100) 2
     \<and> 0 \<le> edge_density_percentage r \<and> edge_density_percentage r \<le> 100
     \<and> edge_strength r = py_round (np_mean (concat (sobel_magnitude sobelx sobely))) 2
     \<and> has_strong_edges r = (5 < edge_density_percentage r)"
proof -
  let ?d = "real (count_edge_pixels edges) / real (array_size edges) * 100"
  have le: "count_edge_pixels edges \<le> array_size edges"
    by (simp add: count_edge_pixels_def array_size_def)
  have pos: "0 < real (array_size edges)" using assms(3) by simp
  have lo: "0 \<le> ?d" by simp
  have "real (count_edge_pixels edges) \<le> real (array_size edges)"
    using le by simp
  then have hi: "?d \<le> of_int 100"
    using pos by (simp add: divide_le_eq)
  have "0 \<le> py_round ?d 2" using lo by (rule py_round_nonneg)
  moreover have "py_round ?d 2 \<le> 100" using py_round_le_int [OF hi, of 2] by simp
  ultimately show ?thesis
    using assms by (simp add: extract_edge_features_def Let_def)
qed

theorem edge_features_rounded_witness:
  "array_size gray_A \<noteq> 0
   \<and> (\<exists>r. extract_edge_features example_libs (Arr3 img_A) = Inr r
        \<and> edge_density_percentage r = py_round (real (count_edge_pixels gray_A) / real (array_size gray_A) * 100) 2
        \<and> 0 \<le> edge_density_percentage r \<and> edge_density_percentage r \<le> 100
        \<and> has_strong_edges r = (5 < edge_density_percentage r))"
proof -
  have s: "array_size gray_A \<noteq> 0" by (simp add: array_size_A)
  show ?thesis
    using edge_features_rounded [OF example_gray_A example_canny_A s example_sobel_A example_sobel_A] s
    by blast
qed


section \<open>Frequency features\<close>

text \<open>
  Claim C8, as stated, gives \<^verbatim>\<open>frequency_ratio\<close> as \<open>high / (low + \<epsilon>)\<close>. The code
  rounds the ratio to two decimals (line 336) before it stores it and before it
  compares it with 1.5 and 0.8. In the counterexample the image is one row of 41
  pixels with a white first pixel: every magnitude is 255, the low-frequency window
  holds 40 of them, so \<open>low = 10200\<close> and \<open>high = 255\<close>, and the stored ratio is
  \<open>0.02\<close>.
\<close>

theorem frequency_ratio_is_rounded_counterexample:
  "cv2_cvtColor_RGB2GRAY example_libs (Arr3 img_row) = Inr [255 # replicate 40 0]
   \<and> map (map cmod) (fftshift (np_fft_fft2 example_libs [255 # replicate 40 0]))
       = [replicate 41 255]
   \<and> sum_list (concat (low_freq_region [replicate 41 (255::real)])) = 10200
   \<and> sum_list (concat [replicate 41 (255::real)]) - 10200 = 255
   \<and> extract_frequency_features example_libs (Arr3 img_row)
       = Inr \<lparr>low_frequency_energy = 10200, high_frequency_energy = 255,
              frequency_ratio = 2 / 100, detail_level = ''low''\<rparr>
   \<and> (2 / 100 :: real) \<noteq> 255 / (10200 + 1 / 10 ^ 10)"
  by (simp add: example_gray_row example_spectrum_row low_freq_region_row example_freq_row
      sum_list_replicate)

text \<open>
  Claim C8, amended. Let the magnitude spectrum be the absolute value of the
  two-dimensional transform of the gray image after \<^verbatim>\<open>fftshift\<close>, which moves the
  zero-frequency term of every axis to the middle index. The low-frequency energy is
  the sum of the magnitudes in the window of rows and columns from the middle index
  minus 20 up to, not including, the middle index plus 20, which is 40 by 40 when the
  spectrum is at least that large; the high-frequency energy is the total minus the
  low-frequency energy and is not negative; \<^verbatim>\<open>frequency_ratio\<close> is
  \<open>high / (low + 10\<^sup>-\<^sup>1\<^sup>0)\<close> rounded to two decimals and is not negative; and
  \<^verbatim>\<open>detail_level\<close> is \<^verbatim>\<open>high\<close> iff the rounded ratio exceeds 1.5, \<^verbatim>\<open>medium\<close> iff it
  exceeds 0.8 and not 1.5, and \<^verbatim>\<open>low\<close> otherwise.
\<close>

theorem frequency_features_rounded:
  assumes "cv2_cvtColor_RGB2GRAY L img_np = Inr gray"
    and "magnitude_spectrum = map (map cmod) (fftshift (np_fft_fft2 L gray))"
    and "low = sum_list (concat (low_freq_region magnitude_spectrum))"
    and "high = sum_list (concat magnitude_spectrum) - low"
  shows "\<exists>r. extract_frequency_features L img_np = Inr r
     \<and> low_frequency_energy r = py_round low 2
     \<and> high_frequency_energy r = py_round high 2
     \<and> 0 \<le> low \<and> 0 \<le> high
     \<and> frequency_ratio r = py_round (high / (low + 1 / 10 ^ 10)) 2
     \<and> 0 \<le> frequency_ratio r
     \<and> (detail_level r = ''high'' \<longleftrightarrow> 1.5 < frequency_ratio r)
     \<and> (detail_level r = ''medium'' \<longleftrightarrow> 0.8 < frequency_ratio r \<and> frequency_ratio r \<le> 1.5)
     \<and> (detail_level r = ''low'' \<longleftrightarrow> frequency_ratio r \<le> 0.8)
     \<and> (40 \<le> shape0 magnitude_spectrum \<and> 40 \<le> shape1 magnitude_spectrum
          \<and> list_all (\<lambda>row. length row = shape1 magnitude_spectrum) magnitude_spectrum
        \<longrightarrow> low_freq_region magnitude_spectrum
              = map (\<lambda>row. take 40 (drop (shape1 magnitude_spectrum div 2 - 20) row))
                  (take 40 (drop (shape0 magnitude_spectrum div 2 - 20) magnitude_spectrum))
            \<and> length (low_freq_region magnitude_spectrum) = 40
            \<and> list_all (\<lambda>row. length row = 40) (low_freq_region magnitude_spectrum))
     \<and> (np_fft_fft2 L gray \<noteq> [] \<longrightarrow>
          fftshift1 (np_fft_fft2 L gray) ! (length (np_fft_fft2 L gray) div 2)
            = np_fft_fft2 L gray ! 0)
     \<and> list_all (\<lambda>row. row \<noteq> [] \<longrightarrow> fftshift1 row ! (length row div 2) = row ! 0)
          (np_fft_fft2 L gray)"
proof -
  have nonneg: "\<forall>row \<in> set magnitude_spectrum. \<forall>x \<in> set row. 0 \<le> x"
    by (auto simp add: assms(2))
  have low0: "0 \<le> low"
    unfolding assms(3) sum_list_concat
    by (intro sum_list_nonneg) (auto simp add: low_freq_region_def Let_def
        dest!: subsetD [OF set_py_slice_subset] intro!: sum_list_nonneg simp: assms(2))
  have high0: "0 \<le> high"
    unfolding assms(4) assms(3) using low_freq_region_sum_le [OF nonneg] by simp
  have "0 \<le> high / (low + 1 / 10 ^ 10)"
    using low0 high0 by simp
  then have ratio0: "0 \<le> py_round (high / (low + 1 / 10 ^ 10)) 2"
    by (rule py_round_nonneg)
  have window: "low_freq_region magnitude_spectrum
              = map (\<lambda>row. take 40 (drop (shape1 magnitude_spectrum div 2 - 20) row))
                  (take 40 (drop (shape0 magnitude_spectrum div 2 - 20) magnitude_spectrum))
            \<and> length (low_freq_region magnitude_spectrum) = 40
            \<and> list_all (\<lambda>row. length row = 40) (low_freq_region magnitude_spectrum)"
    if h: "40 \<le> shape0 magnitude_spectrum \<and> 40 \<le> shape1 magnitude_spectrum
          \<and> list_all (\<lambda>row. length row = shape1 magnitude_spectrum) magnitude_spectrum"
  proof -
    let ?m = magnitude_spectrum
    have len: "40 \<le> length ?m" using h by (simp add: shape0_def)
    have rows: "py_slice ?m (int (shape0 ?m div 2) - 20) (int (shape0 ?m div 2) + 20)
                = take 40 (drop (shape0 ?m div 2 - 20) ?m)"
      using py_slice_centre [OF len] by (simp add: shape0_def)
    have row: "py_slice row (int (shape1 ?m div 2) - 20) (int (shape1 ?m div 2) + 20)
               = take 40 (drop (shape1 ?m div 2 - 20) row) \<and>
               length (take 40 (drop (shape1 ?m div 2 - 20) row)) = 40"
      if "row \<in> set ?m" for row
    proof -
      have l: "length row = shape1 ?m" using h that by (simp add: list_all_iff)
      then have "40 \<le> length row" using h by simp
      from py_slice_centre [OF this] length_take_centre [OF this] l show ?thesis by simp
    qed
    have sub: "set (take 40 (drop (shape0 ?m div 2 - 20) ?m)) \<subseteq> set ?m"
      by (auto dest: in_set_takeD in_set_dropD)
    have eq: "low_freq_region ?m
              = map (\<lambda>row. take 40 (drop (shape1 ?m div 2 - 20) row))
                  (take 40 (drop (shape0 ?m div 2 - 20) ?m))"
      unfolding low_freq_region_def Let_def rows
      using sub row by (intro map_cong) auto
    have l40: "length (take 40 (drop (shape0 ?m div 2 - 20) ?m)) = 40"
      using length_take_centre [OF len] by (simp add: shape0_def)
    show ?thesis
      using sub row l40 by (simp add: eq list_all_iff) blast
  qed
  have dc: "list_all (\<lambda>row. row \<noteq> [] \<longrightarrow> fftshift1 row ! (length row div 2) = row ! 0)
          (np_fft_fft2 L gray)"
    by (simp add: list_all_iff fftshift1_centre)
  have d0: "np_fft_fft2 L gray \<noteq> [] \<longrightarrow>
          fftshift1 (np_fft_fft2 L gray) ! (length (np_fft_fft2 L gray) div 2)
            = np_fft_fft2 L gray ! 0"
    by (simp add: fftshift1_centre)
  have main: "\<exists>r. extract_frequency_features L img_np = Inr r
     \<and> low_frequency_energy r = py_round low 2
     \<and> high_frequency_energy r = py_round high 2
     \<and> 0 \<le> low \<and> 0 \<le> high
     \<and> frequency_ratio r = py_round (high / (low + 1 / 10 ^ 10)) 2
     \<and> 0 \<le> frequency_ratio r
     \<and> (detail_level r = ''high'' \<longleftrightarrow> 1.5 < frequency_ratio r)
     \<and> (detail_level r = ''medium'' \<longleftrightarrow> 0.8 < frequency_ratio r \<and> frequency_ratio r \<le> 1.5)
     \<and> (detail_level r = ''low'' \<longleftrightarrow> frequency_ratio r \<le> 0.8)"
    using assms(1) low0 high0 ratio0
    by (simp add: extract_frequency_features_def Let_def np_sum_def assms(2)[symmetric]
        assms(3)[symmetric] assms(4)[symmetric])
  from main window d0 dc show ?thesis
    by blast
qed

theorem frequency_features_rounded_witness:
  "\<exists>r. extract_frequency_features example_libs (Arr3 img_row) = Inr r
     \<and> frequency_ratio r = py_round (255 / (10200 + 1 / 10 ^ 10)) 2
     \<and> 0 \<le> frequency_ratio r
     \<and> (detail_level r = ''low'' \<longleftrightarrow> frequency_ratio r \<le> 0.8)"
proof -
  have low: "(10200::real) = sum_list (concat (low_freq_region [replicate 41 255]))"
    by (simp add: low_freq_region_row sum_list_replicate)
  have high: "(255::real) = sum_list (concat [replicate 41 255]) - 10200"
    by (simp add: sum_list_replicate)
  show ?thesis
    using frequency_features_rounded [OF example_gray_row example_spectrum_row [symmetric] low high]
    by blast
qed


section \<open>The structural score takes its dynamic range from the second image\<close>

text \<open>
  Claim C5. \<^verbatim>\<open>compute_ssim\<close> converts both arrays to gray, calls the
  structural-similarity index on the full frames with \<^verbatim>\<open>data_range\<close> the difference
  of the largest and the smallest gray value of the second image, and clips the result
  to \<open>[-1, 1]\<close>. The result depends on the order of the arguments: for the image with
  one white pixel and the uniformly white image it is 0 one way and positive the other
  way, and so the comparisons of the two images in the two orders differ in their
  structural component.
\<close>

theorem compute_ssim_range_from_second_image:
  "(last_axis img1_np \<noteq> 4 \<and> last_axis img2_np \<noteq> 4
      \<and> rgb2gray img1_np = Inr g1 \<and> rgb2gray img2_np = Inr g2 \<and> gray_values g2 \<noteq> []
      \<and> structural_similarity g1 g2
            (Max (set (gray_values g2)) - Min (set (gray_values g2))) = Inr s
     \<longrightarrow> compute_ssim img1_np img2_np = Inr (np_clip s (- 1) 1)
        \<and> (np_clip s (- 1) 1 = NaN
             \<or> (\<exists>x. np_clip s (- 1) 1 = Fin x \<and> - 1 \<le> x \<and> x \<le> 1)))
   \<and> compute_ssim (Arr3 img_A) (Arr3 img_B) = Inr (Fin 0)
   \<and> compute_ssim (Arr3 img_B) (Arr3 img_A) = Inr (Fin ssim_B_A)
   \<and> 0 < ssim_B_A
   \<and> (Image_convert L pil_A ''RGB'' = Inr pA \<and> Image_convert L pil_B ''RGB'' = Inr pB
      \<and> Image_resize_LANCZOS L pA (7, 7) = Inr qA \<and> Image_resize_LANCZOS L pB (7, 7) = Inr qB
      \<and> pil_array qA = Arr3 img_A \<and> pil_array qB = Arr3 img_B
      \<and> combined_similarity L cfg pil_A pil_B (7, 7) = Inr r1
      \<and> combined_similarity L cfg pil_B pil_A (7, 7) = Inr r2
     \<longrightarrow> bd_ssim (breakdown r1) = Fin 0 \<and> bd_ssim (breakdown r2) = Fin ssim_B_A \<and> r1 \<noteq> r2)"
proof (intro conjI impI)
  assume h: "last_axis img1_np \<noteq> 4 \<and> last_axis img2_np \<noteq> 4
      \<and> rgb2gray img1_np = Inr g1 \<and> rgb2gray img2_np = Inr g2 \<and> gray_values g2 \<noteq> []
      \<and> structural_similarity g1 g2
            (Max (set (gray_values g2)) - Min (set (gray_values g2))) = Inr s"
  then show "compute_ssim img1_np img2_np = Inr (np_clip s (- 1) 1)"
    by (simp add: compute_ssim_def drop_alpha_at_def Let_def)
  show "np_clip s (- 1) 1 = NaN \<or> (\<exists>x. np_clip s (- 1) 1 = Fin x \<and> - 1 \<le> x \<and> x \<le> 1)"
    by (rule np_clip_range) simp
next
  show "compute_ssim (Arr3 img_A) (Arr3 img_B) = Inr (Fin 0)"
    by (rule compute_ssim_A_B)
  show "compute_ssim (Arr3 img_B) (Arr3 img_A) = Inr (Fin ssim_B_A)"
    by (rule compute_ssim_B_A)
  show "0 < ssim_B_A"
    by (rule ssim_B_A_range)
next
  assume h: "Image_convert L pil_A ''RGB'' = Inr pA \<and> Image_convert L pil_B ''RGB'' = Inr pB
      \<and> Image_resize_LANCZOS L pA (7, 7) = Inr qA \<and> Image_resize_LANCZOS L pB (7, 7) = Inr qB
      \<and> pil_array qA = Arr3 img_A \<and> pil_array qB = Arr3 img_B
      \<and> combined_similarity L cfg pil_A pil_B (7, 7) = Inr r1
      \<and> combined_similarity L cfg pil_B pil_A (7, 7) = Inr r2"
  then have np: "pil_to_np L pA (Some (7, 7)) = Inr (Arr3 img_A)"
    "pil_to_np L pB (Some (7, 7)) = Inr (Arr3 img_B)"
    by (simp_all add: pil_to_np_def)
  from h combined_similarity_Inr [of L cfg pil_A pil_B "(7, 7)" r1] np
  show a: "bd_ssim (breakdown r1) = Fin 0"
    by (auto simp add: compute_ssim_A_B)
  from h combined_similarity_Inr [of L cfg pil_B pil_A "(7, 7)" r2] np
  show b: "bd_ssim (breakdown r2) = Fin ssim_B_A"
    using ssim_B_A_range by (auto simp add: compute_ssim_B_A min_def max_def)
  from a b ssim_B_A_range show "r1 \<noteq> r2"
    by auto
qed

theorem compute_ssim_range_from_second_image_witness:
  "compute_ssim (Arr3 img_B) (Arr3 img_A) = Inr (np_clip (Fin ssim_B_A) (- 1) 1)
   \<and> (\<exists>r1 r2. combined_similarity example_libs example_cfg pil_A pil_B (7, 7) = Inr r1
        \<and> combined_similarity example_libs example_cfg pil_B pil_A (7, 7) = Inr r2
        \<and> bd_ssim (breakdown r1) = Fin 0 \<and> bd_ssim (breakdown r2) = Fin ssim_B_A \<and> r1 \<noteq> r2)"
proof -
  obtain r1 where r1: "combined_similarity example_libs example_cfg pil_A pil_B (7, 7) = Inr r1"
    using example_combined_A_B by blast
  obtain r2 where r2: "combined_similarity example_libs example_cfg pil_B pil_A (7, 7) = Inr r2"
    using example_combined_B_A by blast
  let ?pA = "pil_A\<lparr>pil_format := None, pil_mode := ''RGB''\<rparr>"
  let ?pB = "pil_B\<lparr>pil_format := None, pil_mode := ''RGB''\<rparr>"
  let ?qA = "?pA\<lparr>pil_width := 7, pil_height := 7\<rparr>"
  let ?qB = "?pB\<lparr>pil_width := 7, pil_height := 7\<rparr>"
  have la: "last_axis (Arr3 img_A) \<noteq> 4" "last_axis (Arr3 img_B) \<noteq> 4"
    by (simp_all add: last_axis_def shape2_def img_A_def img_B_def numeral_eq_Suc)
  have ne: "gray_values (Gray2 gray_f_A) \<noteq> []"
    by (simp add: gray_values_def gray_f_A_def)
  have s: "structural_similarity (Gray2 gray_f_B) (Gray2 gray_f_A)
             (Max (set (gray_values (Gray2 gray_f_A))) - Min (set (gray_values (Gray2 gray_f_A))))
           = Inr (Fin ssim_B_A)"
    by (simp add: range_A structural_similarity_def gray_shape_A gray_shape_B gray_windows_def
        windows2_A windows2_B ssim_window_B_A np_mean_f_def)
  show ?thesis
    using compute_ssim_range_from_second_image
      [of "Arr3 img_B" "Arr3 img_A" "Gray2 gray_f_B" "Gray2 gray_f_A" "Fin ssim_B_A"
          example_libs ?pA ?pB ?qA ?qB example_cfg r1 r2]
      la rgb2gray_A rgb2gray_B ne s r1 r2
    by (simp add: example_convert example_resize pil_A_def pil_B_def)
qed

section \<open>A uniform image compared with itself\<close>

text \<open>
  Claim C2 says that an image compared with itself scores 1.0 in the structural and in
  the perceptual component, a uniform image included. The code does so for the
  perceptual component. For a uniform image the dynamic range passed to the
  structural-similarity index is 0, both stabilising constants are 0, every local
  variance is 0, and the index is the mean of \<open>0 / 0\<close>: the structural component is
  \<^verbatim>\<open>nan\<close>, which the two clips keep. The theorem is for the black image at the working
  resolution, for every library whose conversion and resizing return its pixels.
\<close>

theorem self_comparison_of_black_image:
  assumes "Image_convert L pil_black ''RGB'' = Inr p"
    and "Image_resize_LANCZOS L p (512, 512) = Inr q"
    and "pil_array q = Arr3 black_512"
    and "combined_similarity L cfg pil_black pil_black (512, 512) = Inr r"
  shows "compute_ssim (Arr3 black_512) (Arr3 black_512) = Inr NaN
     \<and> bd_ssim (breakdown r) = NaN
     \<and> bd_ssim (breakdown r) \<noteq> Fin 1
     \<and> bd_phash (breakdown r) = Fin 1"
proof -
  have np: "pil_to_np L p (Some (512, 512)) = Inr (Arr3 black_512)"
    using assms(2,3) by (simp add: pil_to_np_def)
  from combined_similarity_Inr [OF assms(4)] assms(1) np
  obtain ph where "compute_phash_similarity L cfg p p = Inr ph"
    and "bd_ssim (breakdown r) = np_clip NaN 0 1"
    and "bd_phash (breakdown r) = np_clip (Fin ph) 0 1"
    by (auto simp add: compute_ssim_black)
  moreover from this have "ph = 1"
    using compute_phash_similarity_self by blast
  ultimately show ?thesis
    by (simp add: compute_ssim_black)
qed

theorem self_comparison_of_black_image_witness:
  "combined_similarity libs_no_descriptors example_cfg pil_black pil_black (512, 512)
     = Inr \<lparr>score = NaN, breakdown = \<lparr>bd_ssim = NaN, bd_phash = Fin 1, bd_orb = Fin 0\<rparr>\<rparr>
   \<and> bd_ssim (breakdown \<lparr>score = NaN, breakdown = \<lparr>bd_ssim = NaN, bd_phash = Fin 1, bd_orb = Fin 0\<rparr>\<rparr>)
       \<noteq> Fin 1"
proof -
  let ?p = "pil_black\<lparr>pil_format := None, pil_mode := ''RGB''\<rparr>"
  have c: "pil_array (?p\<lparr>pil_width := fst (512, 512), pil_height := snd (512, 512)\<rparr>)
           = Arr3 black_512"
    by (simp add: pil_black_def)
  show ?thesis
    using self_comparison_of_black_image [OF no_descriptors_convert no_descriptors_resize c example_combined_black]
      example_combined_black
    by simp
qed

section \<open>The combined score\<close>

text \<open>
  Claim C4 says that the score and every component of the breakdown lie in \<open>[0, 1]\<close>
  for every pair of images. The score is the clip to \<open>[0, 1]\<close> of the weighted sum of
  the three sub-scores, with the structural sub-score entering unclipped, and the
  breakdown holds each sub-score clipped to \<open>[0, 1]\<close>, as the claim says; but a clip
  keeps \<^verbatim>\<open>nan\<close>. For the black image compared with itself the structural sub-score is
  \<^verbatim>\<open>nan\<close> (the defect shown for claim C2), and so are the score and the structural
  component of the breakdown.
\<close>

theorem score_of_black_images_is_nan:
  assumes "Image_convert L pil_black ''RGB'' = Inr p"
    and "Image_resize_LANCZOS L p (512, 512) = Inr q"
    and "pil_array q = Arr3 black_512"
    and "combined_similarity L cfg pil_black pil_black (512, 512) = Inr r"
  shows "score r = NaN
     \<and> \<not> (\<exists>x. score r = Fin x \<and> 0 \<le> x \<and> x \<le> 1)
     \<and> \<not> (\<exists>x. bd_ssim (breakdown r) = Fin x \<and> 0 \<le> x \<and> x \<le> 1)"
proof -
  have np: "pil_to_np L p (Some (512, 512)) = Inr (Arr3 black_512)"
    using assms(2,3) by (simp add: pil_to_np_def)
  from combined_similarity_Inr [OF assms(4)] assms(1) np
  obtain ph orb where "score r = np_clip (weighted_sum cfg NaN ph orb) 0 1"
    and "bd_ssim (breakdown r) = np_clip NaN 0 1"
    by (auto simp add: compute_ssim_black)
  then show ?thesis
    by (simp add: weighted_sum_nan)
qed

theorem score_of_black_images_is_nan_witness:
  "combined_similarity libs_no_descriptors example_cfg pil_black pil_black (512, 512)
     = Inr \<lparr>score = NaN, breakdown = \<lparr>bd_ssim = NaN, bd_phash = Fin 1, bd_orb = Fin 0\<rparr>\<rparr>
   \<and> score \<lparr>score = NaN, breakdown = \<lparr>bd_ssim = NaN, bd_phash = Fin 1, bd_orb = Fin 0\<rparr>\<rparr> = NaN"
proof -
  let ?p = "pil_black\<lparr>pil_format := None, pil_mode := ''RGB''\<rparr>"
  have c: "pil_array (?p\<lparr>pil_width := fst (512, 512), pil_height := snd (512, 512)\<rparr>)
           = Arr3 black_512"
    by (simp add: pil_black_def)
  show ?thesis
    using score_of_black_images_is_nan [OF no_descriptors_convert no_descriptors_resize c example_combined_black]
      example_combined_black
    by simp
qed

end
